theory Spec2Isabelle
  imports Complex_Main
begin

section \<open>Numbers and arrays of the source language\<close>

text \<open>
  A TypeScript \<open>number\<close> is modelled as a real, one of the two infinities, or NaN.
  Arithmetic on the finite values is exact: rounding, overflow and the sign of zero are
  not modelled, except for \<open>normalizeAngle\<close>, which is also given with rounding.
  \<open>undefined\<close>, which a read beyond the end of an array or of a missing key gives,
  turns into NaN in every arithmetic operation and comparison of the code modelled here,
  and is never handed back without one; the model has the single value \<open>NaN\<close> for
  both.
\<close>

datatype number = Fin real | PInf | NInf | NaN

fun sign_of :: "number \<Rightarrow> real" where
  "sign_of (Fin x) = sgn x"
| "sign_of PInf = 1"
| "sign_of NInf = -1"
| "sign_of NaN = 0"

definition inf_of_sign :: "real \<Rightarrow> number" where
  "inf_of_sign s = (if 0 < s then PInf else if s < 0 then NInf else NaN)"

fun num_add :: "number \<Rightarrow> number \<Rightarrow> number" where
  "num_add (Fin a) (Fin b) = Fin (a + b)"
| "num_add NaN _ = NaN"
| "num_add _ NaN = NaN"
| "num_add PInf NInf = NaN"
| "num_add NInf PInf = NaN"
| "num_add PInf _ = PInf"
| "num_add _ PInf = PInf"
| "num_add NInf _ = NInf"
| "num_add _ NInf = NInf"

fun num_neg :: "number \<Rightarrow> number" where
  "num_neg (Fin a) = Fin (- a)"
| "num_neg PInf = NInf"
| "num_neg NInf = PInf"
| "num_neg NaN = NaN"

fun num_mul :: "number \<Rightarrow> number \<Rightarrow> number" where
  "num_mul (Fin a) (Fin b) = Fin (a * b)"
| "num_mul NaN _ = NaN"
| "num_mul _ NaN = NaN"
| "num_mul a b = inf_of_sign (sign_of a * sign_of b)"

fun num_div :: "number \<Rightarrow> number \<Rightarrow> number" where
  "num_div (Fin a) (Fin b) = (if b = 0 then inf_of_sign (sgn a) else Fin (a / b))"
| "num_div NaN _ = NaN"
| "num_div _ NaN = NaN"
| "num_div (Fin a) _ = Fin 0"
| "num_div a (Fin b) = inf_of_sign (sign_of a * (if 0 \<le> b then 1 else -1))"
| "num_div _ _ = NaN"

fun num_less :: "number \<Rightarrow> number \<Rightarrow> bool" where
  "num_less (Fin a) (Fin b) = (a < b)"
| "num_less NaN _ = False"
| "num_less _ NaN = False"
| "num_less NInf NInf = False"
| "num_less NInf _ = True"
| "num_less _ NInf = False"
| "num_less PInf _ = False"
| "num_less _ PInf = True"

fun num_le :: "number \<Rightarrow> number \<Rightarrow> bool" where
  "num_le NaN _ = False"
| "num_le _ NaN = False"
| "num_le a b = (a = b \<or> num_less a b)"

instantiation number :: "{zero, one, plus, minus, uminus, times, inverse, ord}"
begin

definition zero_number :: number where "0 = Fin 0"
definition one_number :: number where "1 = Fin 1"
definition plus_number :: "number \<Rightarrow> number \<Rightarrow> number" where "a + b = num_add a b"
definition uminus_number :: "number \<Rightarrow> number" where "- a = num_neg a"
definition minus_number :: "number \<Rightarrow> number \<Rightarrow> number" where "a - b = num_add a (num_neg b)"
definition times_number :: "number \<Rightarrow> number \<Rightarrow> number" where "a * b = num_mul a b"
definition divide_number :: "number \<Rightarrow> number \<Rightarrow> number" where "a div b = num_div a b"
definition inverse_number :: "number \<Rightarrow> number" where "inverse a = num_div (Fin 1) a"
definition less_number :: "number \<Rightarrow> number \<Rightarrow> bool" where "a < b = num_less a b"
definition less_eq_number :: "number \<Rightarrow> number \<Rightarrow> bool" where "a \<le> b = num_le a b"

instance ..

end

instance number :: numeral
proof
  fix a b c :: number
  show "a + b + c = a + (b + c)"
    by (cases a; cases b; cases c) (simp_all add: plus_number_def)
qed


definition Math_PI :: number where
  "Math_PI = Fin pi"

fun Math_sin :: "number \<Rightarrow> number" where
  "Math_sin (Fin a) = Fin (sin a)"
| "Math_sin _ = NaN"

fun Math_cos :: "number \<Rightarrow> number" where
  "Math_cos (Fin a) = Fin (cos a)"
| "Math_cos _ = NaN"

text \<open>\<open>Math.pow\<close> with a literal natural exponent (the code only squares).\<close>

primrec Math_pow :: "number \<Rightarrow> nat \<Rightarrow> number" where
  "Math_pow a 0 = 1"
| "Math_pow a (Suc k) = a * Math_pow a k"

text \<open>\<open>a || b\<close> on numbers: zero and NaN are falsy.\<close>

definition js_or :: "number \<Rightarrow> number \<Rightarrow> number" where
  "js_or a b = (if a = Fin 0 \<or> a = NaN then b else a)"

text \<open>
  Arrays are lists. A read beyond the end gives \<open>undefined\<close> (here \<open>NaN\<close>); a write
  at the end appends, and a write beyond it leaves holes, which read as \<open>undefined\<close>.
\<close>

definition js_get :: "number list \<Rightarrow> nat \<Rightarrow> number" where
  "js_get xs i = (if i < length xs then xs ! i else NaN)"

definition js_set :: "number list \<Rightarrow> nat \<Rightarrow> number \<Rightarrow> number list" where
  "js_set xs i v =
     (if i < length xs then xs[i := v] else xs @ replicate (i - length xs) NaN @ [v])"

text \<open>\<open>xs.slice(k)\<close>: a negative \<open>k\<close> counts from the end, and stops at the start.\<close>

definition js_slice_from :: "int \<Rightarrow> 'a list \<Rightarrow> 'a list" where
  "js_slice_from k xs =
     (if k < 0 then drop (nat (int (length xs) + k)) xs else drop (nat k) xs)"

text \<open>
  The loop \<^verbatim>\<open>for (let i = i0; i < n; i++) buf[i] = e(i)\<close>, where \<open>e\<close> does
  not read \<open>buf\<close>.
\<close>

function for_set :: "nat \<Rightarrow> nat \<Rightarrow> (nat \<Rightarrow> number) \<Rightarrow> number list \<Rightarrow> number list" where
  "for_set i n e buf = (if i < n then for_set (Suc i) n e (js_set buf i (e i)) else buf)"
  by pat_completeness auto
termination
  by (relation "measure (\<lambda>(i, n, e, buf). n - i)") auto

declare for_set.simps [simp del]

text \<open>
  A parameter bag \<open>Record<string, unknown>\<close> is a map from names to numbers (every
  parameter of the three models is a number). \<open>{...a, ...b}\<close> is \<open>a ++ b\<close>. Reading a
  missing key gives \<open>undefined\<close>.
\<close>

type_synonym Params = "string \<rightharpoonup> number"

definition param :: "Params \<Rightarrow> string \<Rightarrow> number" where
  "param p k = (case p k of None \<Rightarrow> NaN | Some v \<Rightarrow> v)"

section \<open>Integrators and helpers (utils/physics)\<close>

text \<open>
  The module owns seven scratch arrays, allocated once with twenty zeros each and
  shared by every call. They are the module's state, passed in and handed back.
\<close>

record physics_module =
  euler_result :: "number list"
  rk4_k1 :: "number list"
  rk4_k2 :: "number list"
  rk4_k3 :: "number list"
  rk4_k4 :: "number list"
  rk4_temp :: "number list"
  rk4_result :: "number list"

definition physics_module_init :: physics_module where
  "physics_module_init =
     \<lparr> euler_result = replicate 20 0, rk4_k1 = replicate 20 0, rk4_k2 = replicate 20 0,
       rk4_k3 = replicate 20 0, rk4_k4 = replicate 20 0, rk4_temp = replicate 20 0,
       rk4_result = replicate 20 0 \<rparr>"

type_synonym State = "number list"
type_synonym DerivativeFunc = "number \<Rightarrow> State \<Rightarrow> State"

text \<open>
  A derivative function hands back an array that it may overwrite at its next call (the
  models return their own scratch array). Both integrators read it only before they call
  the function again, so the model takes the returned contents as a value.
\<close>

definition euler :: "State \<Rightarrow> number \<Rightarrow> number \<Rightarrow> DerivativeFunc \<Rightarrow> physics_module
    \<Rightarrow> State \<times> physics_module" where
  "euler state t dt derivatives M =
     (let n = length state;
          d = derivatives t state;
          res = for_set 0 n (\<lambda>i. js_get state i + js_get d i * dt) (euler_result M)
      in (take n res, M\<lparr>euler_result := res\<rparr>))"

definition rk4 :: "State \<Rightarrow> number \<Rightarrow> number \<Rightarrow> DerivativeFunc \<Rightarrow> physics_module
    \<Rightarrow> State \<times> physics_module" where
  "rk4 state t dt derivatives M =
     (let n = length state;
          dt2 = dt / 2;
          dt6 = dt / 6;
          k1Src = derivatives t state;
          k1 = for_set 0 n (\<lambda>i. js_get k1Src i) (rk4_k1 M);
          temp1 = for_set 0 n (\<lambda>i. js_get state i + dt2 * js_get k1 i) (rk4_temp M);
          k2Src = derivatives (t + dt2) temp1;
          k2 = for_set 0 n (\<lambda>i. js_get k2Src i) (rk4_k2 M);
          temp2 = for_set 0 n (\<lambda>i. js_get state i + dt2 * js_get k2 i) temp1;
          k3Src = derivatives (t + dt2) temp2;
          k3 = for_set 0 n (\<lambda>i. js_get k3Src i) (rk4_k3 M);
          temp3 = for_set 0 n (\<lambda>i. js_get state i + dt * js_get k3 i) temp2;
          k4Src = derivatives (t + dt) temp3;
          k4 = for_set 0 n (\<lambda>i. js_get k4Src i) (rk4_k4 M);
          res = for_set 0 n
                  (\<lambda>i. js_get state i
                        + dt6 * (js_get k1 i + 2 * js_get k2 i + 2 * js_get k3 i + js_get k4 i))
                  (rk4_result M)
      in (take n res,
          M\<lparr>rk4_k1 := k1, rk4_k2 := k2, rk4_k3 := k3, rk4_k4 := k4, rk4_temp := temp3,
            rk4_result := res\<rparr>))"

text \<open>
  \<open>normalizeAngle\<close>: two loops that need not end, so each is a partial function and
  \<open>None\<close> stands for a call that does not return.
\<close>

partial_function (option) normalize_down :: "number \<Rightarrow> number option" where
  "normalize_down angle =
     (if Math_PI < angle then normalize_down (angle - 2 * Math_PI) else Some angle)"

partial_function (option) normalize_up :: "number \<Rightarrow> number option" where
  "normalize_up angle =
     (if angle < - Math_PI then normalize_up (angle + 2 * Math_PI) else Some angle)"

definition normalizeAngle :: "number \<Rightarrow> number option" where
  "normalizeAngle angle = Option.bind (normalize_down angle) normalize_up"

text \<open>
  The loops above subtract and add in exact arithmetic. Whether they end depends on how
  the machine rounds, so the function is given a second time in the arithmetic of the
  machine: a \<open>number\<close> is an IEEE 754 binary64 value, and an arithmetic operation
  gives the exact result rounded to the nearest such value, ties to the even
  significand. \<open>binary64 x\<close> is that value for a real \<open>x\<close>: a significand of 53
  bits, the least exponent that of the subnormal values (the values are multiples of
  \<open>2 powr -1074\<close>), and an infinity when the rounded value reaches \<open>2 ^ 1024\<close>.
  \<open>Math.PI\<close> is the binary64 value nearest to \<open>\<pi>\<close>, and doubling it is exact.
\<close>

definition round_half_even :: "real \<Rightarrow> int" where
  "round_half_even z =
     (let f = \<lfloor>z\<rfloor>
      in if z - of_int f < 1 / 2 then f
         else if 1 / 2 < z - of_int f then f + 1
         else if even f then f else f + 1)"

definition binary64 :: "real \<Rightarrow> number" where
  "binary64 x =
     (if x = 0 then Fin 0
      else
        let e = max (\<lfloor>log 2 \<bar>x\<bar>\<rfloor> - 52) (- 1074);
            r = of_int (round_half_even (x / 2 powr of_int e)) * 2 powr of_int e
        in if 2 ^ 1024 \<le> \<bar>r\<bar> then inf_of_sign r else Fin r)"

fun to_double :: "number \<Rightarrow> number" where
  "to_double (Fin x) = binary64 x"
| "to_double a = a"

definition Math_PI_double :: number where
  "Math_PI_double = Fin (884279719003555 / 2 ^ 48)"

partial_function (option) normalize_down_double :: "number \<Rightarrow> number option" where
  "normalize_down_double angle =
     (if Math_PI_double < angle
      then normalize_down_double (to_double (angle - to_double (2 * Math_PI_double)))
      else Some angle)"

partial_function (option) normalize_up_double :: "number \<Rightarrow> number option" where
  "normalize_up_double angle =
     (if angle < - Math_PI_double
      then normalize_up_double (to_double (angle + to_double (2 * Math_PI_double)))
      else Some angle)"

definition normalizeAngle_double :: "number \<Rightarrow> number option" where
  "normalizeAngle_double angle = Option.bind (normalize_down_double angle) normalize_up_double"

definition polarToCartesian :: "number \<Rightarrow> number \<Rightarrow> number \<Rightarrow> number \<Rightarrow> number \<times> number" where
  "polarToCartesian r theta originX originY =
     (originX + r * Math_sin theta, originY - r * Math_cos theta)"

subsection \<open>The update the specification describes\<close>

text \<open>
  The classic four-stage Runge-Kutta update as the specification words it, on vectors of
  the state's length: \<open>vec_axpy y a k\<close> is \<open>y + a\<cdot>k\<close>.
\<close>

definition vec_axpy :: "State \<Rightarrow> number \<Rightarrow> State \<Rightarrow> State" where
  "vec_axpy y a k = map (\<lambda>i. js_get y i + a * js_get k i) [0..<length y]"

definition rk4_classic :: "State \<Rightarrow> number \<Rightarrow> number \<Rightarrow> DerivativeFunc \<Rightarrow> State" where
  "rk4_classic y t dt f =
     (let k1 = f t y;
          k2 = f (t + dt / 2) (vec_axpy y (dt / 2) k1);
          k3 = f (t + dt / 2) (vec_axpy y (dt / 2) k2);
          k4 = f (t + dt) (vec_axpy y dt k3)
      in map (\<lambda>i. js_get y i
                 + dt / 6 * (js_get k1 i + 2 * js_get k2 i + 2 * js_get k3 i + js_get k4 i))
           [0..<length y])"

text \<open>
  What the code computes: from the second stage on, the derivative function is called on
  the scratch array itself, whose first components are the stage's vector and whose
  remaining slots \<open>T\<close> hold whatever was there before.
\<close>

definition rk4_on_scratch :: "State \<Rightarrow> number \<Rightarrow> number \<Rightarrow> DerivativeFunc \<Rightarrow> number list \<Rightarrow> State" where
  "rk4_on_scratch y t dt f T =
     (let k1 = f t y;
          k2 = f (t + dt / 2) (vec_axpy y (dt / 2) k1 @ T);
          k3 = f (t + dt / 2) (vec_axpy y (dt / 2) k2 @ T);
          k4 = f (t + dt) (vec_axpy y dt k3 @ T)
      in map (\<lambda>i. js_get y i
                 + dt / 6 * (js_get k1 i + 2 * js_get k2 i + 2 * js_get k3 i + js_get k4 i))
           [0..<length y])"

text \<open>
  A derivative function is determined by the first \<open>n\<close> components when the first
  \<open>n\<close> components of its result depend on no other component of its argument, nor on
  the argument's length.
\<close>

definition prefix_determined :: "nat \<Rightarrow> DerivativeFunc \<Rightarrow> bool" where
  "prefix_determined n f =
     (\<forall>t s s'. take n s = take n s' \<longrightarrow> take n (f t s) = take n (f t s'))"

text \<open>
  A derivative function that looks at the length of the array it is given,
  \<^verbatim>\<open>(t, s) => s.map(() => s.length)\<close>: every component grows at the rate of the
  number of components.
\<close>

definition length_rate :: DerivativeFunc where
  "length_rate t s = replicate (length s) (Fin (real (length s)))"


section \<open>Data model (core/types)\<close>

record Vector3 =
  vec_x :: number
  vec_y :: number
  vec_z :: number

record PhysicsState =
  phys_time :: number
  positions :: "Vector3 list"
  velocities :: "Vector3 list"
  accelerations :: "Vector3 list option"

record EnergyState =
  kinetic :: number
  potential :: number
  total :: number

record PhasePoint =
  angle :: number
  angularVelocity :: number
  point_time :: number

text \<open>A parameter's definition: its default value and the bounds the controls use.\<close>

record ParameterDef =
  def_value :: number
  def_min :: "number option"
  def_max :: "number option"
  def_step :: "number option"

datatype IntegrationMethod = Euler | Verlet | RK4

record SimulationMeta =
  meta_id :: string
  meta_name :: string

text \<open>
  Of the configuration, the identification, the parameter definitions and the physics
  settings; the visualisation and camera defaults are not read by the simulation.
\<close>

record SimulationConfig =
  meta :: SimulationMeta
  defaultParams :: "string \<rightharpoonup> ParameterDef"
  physics_gravity :: number
  physics_damping :: number
  integrationMethod :: IntegrationMethod
  fixedTimestep :: number

record ExportData =
  export_meta :: SimulationMeta
  export_params :: Params
  series_time :: "number list"
  series_positions :: "Vector3 list list"
  series_velocities :: "Vector3 list list"
  series_energy :: "EnergyState list"
  phaseSpace :: "PhasePoint list list option"

section \<open>The models' equations\<close>

subsection \<open>SimplePendulum\<close>

text \<open>
  Each model writes its derivatives into a scratch array of its own and returns that
  array; \<open>derivBuffer\<close> is the array as the call finds it.
\<close>

definition SimplePendulum_config :: SimulationConfig where
  "SimplePendulum_config =
     \<lparr> meta = \<lparr> meta_id = ''simple-pendulum'', meta_name = ''Simple Pendulum'' \<rparr>,
       defaultParams = map_of
         [ (''length'', \<lparr> def_value = 2, def_min = Some (Fin 0.1), def_max = Some 10, def_step = Some (Fin 0.1) \<rparr>),
           (''mass'', \<lparr> def_value = 1, def_min = Some (Fin 0.1), def_max = Some 10, def_step = Some (Fin 0.1) \<rparr>),
           (''gravity'', \<lparr> def_value = Fin 9.81, def_min = Some (Fin 0.1), def_max = Some 25, def_step = Some (Fin 0.01) \<rparr>),
           (''damping'', \<lparr> def_value = 0, def_min = Some 0, def_max = Some 1, def_step = Some (Fin 0.01) \<rparr>),
           (''initialAngle'', \<lparr> def_value = Math_PI / 4, def_min = Some (- Math_PI),
               def_max = Some Math_PI, def_step = Some (Fin 0.01) \<rparr>),
           (''initialVelocity'', \<lparr> def_value = 0, def_min = Some (- 10), def_max = Some 10,
               def_step = Some (Fin 0.1) \<rparr>) ],
       physics_gravity = Fin 9.81, physics_damping = 0, integrationMethod = RK4,
       fixedTimestep = 1 / 240 \<rparr>"

definition SimplePendulum_createInitialState :: "Params \<Rightarrow> State" where
  "SimplePendulum_createInitialState p = [param p ''initialAngle'', param p ''initialVelocity'']"

definition SimplePendulum_computeDerivatives :: "Params \<Rightarrow> number list \<Rightarrow> number \<Rightarrow> State \<Rightarrow> State" where
  "SimplePendulum_computeDerivatives p derivBuffer t state =
     (let theta = js_get state 0;
          omega = js_get state 1;
          alpha = - (param p ''gravity'' / param p ''length'') * Math_sin theta
                  - param p ''damping'' * omega
      in js_set (js_set derivBuffer 0 omega) 1 alpha)"

definition SimplePendulum_stateToPhysics :: "Params \<Rightarrow> number \<Rightarrow> State \<Rightarrow> PhysicsState" where
  "SimplePendulum_stateToPhysics p time state =
     (let theta = js_get state 0;
          omega = js_get state 1;
          pos = polarToCartesian (param p ''length'') theta 0 0;
          v = param p ''length'' * omega;
          vx = v * Math_cos theta;
          vy = v * Math_sin theta
      in \<lparr> phys_time = time,
           positions = [\<lparr> vec_x = fst pos, vec_y = snd pos, vec_z = 0 \<rparr>],
           velocities = [\<lparr> vec_x = vx, vec_y = vy, vec_z = 0 \<rparr>],
           accelerations = None \<rparr>)"

definition SimplePendulum_getEnergy :: "Params \<Rightarrow> State \<Rightarrow> EnergyState" where
  "SimplePendulum_getEnergy p state =
     (let theta = js_get state 0;
          omega = js_get state 1;
          kinetic = Fin 0.5 * param p ''mass'' * Math_pow (param p ''length'' * omega) 2;
          h = param p ''length'' * (1 - Math_cos theta);
          potential = param p ''mass'' * param p ''gravity'' * h
      in \<lparr> kinetic = kinetic, potential = potential, total = kinetic + potential \<rparr>)"

definition SimplePendulum_getPhaseSpace :: "number \<Rightarrow> State \<Rightarrow> PhasePoint list" where
  "SimplePendulum_getPhaseSpace time state =
     [\<lparr> angle = js_get state 0, angularVelocity = js_get state 1, point_time = time \<rparr>]"

subsection \<open>DoublePendulum\<close>

definition DoublePendulum_createInitialState :: "Params \<Rightarrow> State" where
  "DoublePendulum_createInitialState p =
     [param p ''initialAngle1'', param p ''initialAngle2'',
      param p ''initialVelocity1'', param p ''initialVelocity2'']"

definition DoublePendulum_computeDerivatives :: "Params \<Rightarrow> number list \<Rightarrow> number \<Rightarrow> State \<Rightarrow> State" where
  "DoublePendulum_computeDerivatives p derivBuffer t state =
     (let theta1 = js_get state 0;
          theta2 = js_get state 1;
          omega1 = js_get state 2;
          omega2 = js_get state 3;
          L1 = param p ''length1'';
          L2 = param p ''length2'';
          m1 = param p ''mass1'';
          m2 = param p ''mass2'';
          g = param p ''gravity'';
          damping = param p ''damping'';
          delta = theta1 - theta2;
          sinDelta = Math_sin delta;
          cosDelta = Math_cos delta;
          denom1 = L1 * (2 * m1 + m2 - m2 * Math_cos (2 * delta));
          denom2 = L2 * (2 * m1 + m2 - m2 * Math_cos (2 * delta));
          alpha1 =
            (- g * (2 * m1 + m2) * Math_sin theta1
             - m2 * g * Math_sin (theta1 - 2 * theta2)
             - 2 * sinDelta * m2 * (omega2 * omega2 * L2 + omega1 * omega1 * L1 * cosDelta))
            / denom1
            - damping * omega1;
          alpha2 =
            (2 * sinDelta
               * (omega1 * omega1 * L1 * (m1 + m2)
                  + g * (m1 + m2) * Math_cos theta1
                  + omega2 * omega2 * L2 * m2 * cosDelta))
            / denom2
            - damping * omega2
      in js_set (js_set (js_set (js_set derivBuffer 0 omega1) 1 omega2) 2 alpha1) 3 alpha2)"

definition DoublePendulum_getEnergy :: "Params \<Rightarrow> State \<Rightarrow> EnergyState" where
  "DoublePendulum_getEnergy p state =
     (let theta1 = js_get state 0;
          theta2 = js_get state 1;
          omega1 = js_get state 2;
          omega2 = js_get state 3;
          L1 = param p ''length1'';
          L2 = param p ''length2'';
          m1 = param p ''mass1'';
          m2 = param p ''mass2'';
          g = param p ''gravity'';
          y1 = - L1 * Math_cos theta1;
          y2 = y1 - L2 * Math_cos theta2;
          v1Sq = Math_pow (L1 * omega1) 2;
          v2Sq = Math_pow (L1 * omega1) 2 + Math_pow (L2 * omega2) 2
                 + 2 * L1 * L2 * omega1 * omega2 * Math_cos (theta1 - theta2);
          kinetic = Fin 0.5 * m1 * v1Sq + Fin 0.5 * m2 * v2Sq;
          potential = m1 * g * (y1 + L1) + m2 * g * (y2 + L1 + L2)
      in \<lparr> kinetic = kinetic, potential = potential, total = kinetic + potential \<rparr>)"

text \<open>
  The equations of motion of the double pendulum with point masses on massless rods,
  as they come out of the Lagrangian
  \<open>1/2 m1 (L1 \<omega>1)\<^sup>2 + 1/2 m2 ((L1 \<omega>1)\<^sup>2 + (L2 \<omega>2)\<^sup>2 + 2 L1 L2 \<omega>1 \<omega>2 cos(\<theta>1 - \<theta>2))
   + (m1 + m2) g L1 cos \<theta>1 + m2 g L2 cos \<theta>2\<close>:
  the two Euler-Lagrange equations, linear in the angular accelerations \<open>a1\<close>, \<open>a2\<close>.
\<close>

definition lagrange_equations ::
  "real \<Rightarrow> real \<Rightarrow> real \<Rightarrow> real \<Rightarrow> real \<Rightarrow> real \<Rightarrow> real \<Rightarrow> real \<Rightarrow> real \<Rightarrow> real \<Rightarrow> real \<Rightarrow> bool" where
  "lagrange_equations L1 L2 m1 m2 g th1 th2 w1 w2 a1 a2 =
     ((m1 + m2) * L1 * a1 + m2 * L2 * a2 * cos (th1 - th2)
        + m2 * L2 * w2 * w2 * sin (th1 - th2) + (m1 + m2) * g * sin th1 = 0
      \<and> m2 * L2 * a2 + m2 * L1 * a1 * cos (th1 - th2)
        - m2 * L1 * w1 * w1 * sin (th1 - th2) + m2 * g * sin th2 = 0)"

text \<open>Their solution in the usual closed form, over the shared denominator.\<close>

definition shared_denominator :: "real \<Rightarrow> real \<Rightarrow> real \<Rightarrow> real \<Rightarrow> real \<Rightarrow> real" where
  "shared_denominator L m1 m2 th1 th2 = L * (2 * m1 + m2 - m2 * cos (2 * (th1 - th2)))"

definition lagrange_alpha1 ::
  "real \<Rightarrow> real \<Rightarrow> real \<Rightarrow> real \<Rightarrow> real \<Rightarrow> real \<Rightarrow> real \<Rightarrow> real \<Rightarrow> real \<Rightarrow> real" where
  "lagrange_alpha1 L1 L2 m1 m2 g th1 th2 w1 w2 =
     (- g * (2 * m1 + m2) * sin th1 - m2 * g * sin (th1 - 2 * th2)
      - 2 * sin (th1 - th2) * m2 * (w2 * w2 * L2 + w1 * w1 * L1 * cos (th1 - th2)))
     / shared_denominator L1 m1 m2 th1 th2"

definition lagrange_alpha2 ::
  "real \<Rightarrow> real \<Rightarrow> real \<Rightarrow> real \<Rightarrow> real \<Rightarrow> real \<Rightarrow> real \<Rightarrow> real \<Rightarrow> real \<Rightarrow> real" where
  "lagrange_alpha2 L1 L2 m1 m2 g th1 th2 w1 w2 =
     (2 * sin (th1 - th2)
        * (w1 * w1 * L1 * (m1 + m2) + g * (m1 + m2) * cos th1
           + w2 * w2 * L2 * m2 * cos (th1 - th2)))
     / shared_denominator L2 m1 m2 th1 th2"

text \<open>The parameters of a double pendulum, all finite.\<close>

definition DoublePendulum_params ::
  "real \<Rightarrow> real \<Rightarrow> real \<Rightarrow> real \<Rightarrow> real \<Rightarrow> real \<Rightarrow> Params" where
  "DoublePendulum_params L1 L2 m1 m2 g damping =
     [''length1'' \<mapsto> Fin L1, ''length2'' \<mapsto> Fin L2, ''mass1'' \<mapsto> Fin m1,
      ''mass2'' \<mapsto> Fin m2, ''gravity'' \<mapsto> Fin g, ''damping'' \<mapsto> Fin damping]"

text \<open>
  The total energies that \<open>getEnergy\<close> reports for the single and the double pendulum,
  as functions of the angles and angular velocities.
\<close>

definition pendulum_energy :: "real \<Rightarrow> real \<Rightarrow> real \<Rightarrow> real \<Rightarrow> real \<Rightarrow> real" where
  "pendulum_energy L m g th w = 1 / 2 * m * (L * w)\<^sup>2 + m * g * (L * (1 - cos th))"

definition double_pendulum_energy ::
  "real \<Rightarrow> real \<Rightarrow> real \<Rightarrow> real \<Rightarrow> real \<Rightarrow> real \<Rightarrow> real \<Rightarrow> real \<Rightarrow> real \<Rightarrow> real" where
  "double_pendulum_energy L1 L2 m1 m2 g th1 th2 w1 w2 =
     1 / 2 * m1 * (L1 * w1)\<^sup>2
     + 1 / 2 * m2 * ((L1 * w1)\<^sup>2 + (L2 * w2)\<^sup>2 + 2 * L1 * L2 * w1 * w2 * cos (th1 - th2))
     + (m1 * g * (- L1 * cos th1 + L1) + m2 * g * (- L1 * cos th1 - L2 * cos th2 + L1 + L2))"

subsection \<open>NPendulum\<close>





section \<open>BaseSimulation (simulations/templates)\<close>

text \<open>
  The fields of the abstract class; \<open>own\<close> holds the fields a subclass adds.
\<close>

record 'own BaseSimulation =
  time :: number
  state :: "number list"
  initialState :: "number list"
  params :: Params
  timeHistory :: "number list"
  positionHistory :: "Vector3 list list"
  velocityHistory :: "Vector3 list list"
  energyHistory :: "EnergyState list"
  phaseHistory :: "PhasePoint list list"
  recordingEnabled :: bool
  own :: 'own

text \<open>The field \<open>maxHistoryLength\<close> is set where it is declared and never assigned.\<close>

definition maxHistoryLength :: nat where
  "maxHistoryLength = 10000"

text \<open>
  A concrete class: its configuration and its implementations of the abstract methods.
  Only \<open>createInitialState\<close> assigns fields, and only the subclass's own; it contains
  the one loop that need not end, so it may not return. The other methods read the
  object.
\<close>

record 'own SimulationClass =
  config :: SimulationConfig
  createInitialState :: "'own BaseSimulation \<Rightarrow> (State \<times> 'own) option"
  computeDerivatives :: "'own BaseSimulation \<Rightarrow> number \<Rightarrow> State \<Rightarrow> State"
  stateToPhysics :: "'own BaseSimulation \<Rightarrow> State \<Rightarrow> PhysicsState"
  getEnergy :: "'own BaseSimulation \<Rightarrow> EnergyState"
  getPhaseSpace :: "('own BaseSimulation \<Rightarrow> PhasePoint list) option"

text \<open>A freshly constructed object; \<open>own0\<close> are the subclass's field initialisers.\<close>

definition new_simulation :: "'own \<Rightarrow> 'own BaseSimulation" where
  "new_simulation own0 =
     \<lparr> time = 0, state = [], initialState = [], params = Map.empty, timeHistory = [],
       positionHistory = [], velocityHistory = [], energyHistory = [], phaseHistory = [],
       recordingEnabled = False, own = own0 \<rparr>"

definition getDefaultParams :: "SimulationConfig \<Rightarrow> Params" where
  "getDefaultParams cfg = (\<lambda>key. map_option def_value (defaultParams cfg key))"

definition clearHistory :: "'own BaseSimulation \<Rightarrow> 'own BaseSimulation" where
  "clearHistory this =
     this\<lparr>timeHistory := [], positionHistory := [], velocityHistory := [],
          energyHistory := [], phaseHistory := []\<rparr>"

text \<open>
  \<open>init\<close> uses the configuration and \<open>createInitialState\<close> only, and takes just
  these two.
\<close>

definition init :: "SimulationConfig \<Rightarrow> ('own BaseSimulation \<Rightarrow> (State \<times> 'own) option)
    \<Rightarrow> Params \<Rightarrow> 'own BaseSimulation \<Rightarrow> 'own BaseSimulation option" where
  "init cfg create p this =
     (let this1 = this\<lparr>params := getDefaultParams cfg ++ p\<rparr>;
          this2 = this1\<lparr>time := 0\<rparr>
      in case create this2 of
           None \<Rightarrow> None
         | Some (s, own') \<Rightarrow>
             Some (clearHistory (this2\<lparr>own := own', state := s, initialState := s\<rparr>)))"

text \<open>
  The loop \<^verbatim>\<open>phase.forEach((p, i) => { if (!h[i]) h[i] = []; h[i].push(p) })\<close>.
  The index starts at zero, so it is never beyond the end of \<open>h\<close>; a hole would be
  filled with an empty array on its first visit, and is written as one here.
\<close>

fun push_phase :: "nat \<Rightarrow> PhasePoint list \<Rightarrow> PhasePoint list list \<Rightarrow> PhasePoint list list" where
  "push_phase i [] h = h"
| "push_phase i (p # ps) h =
     push_phase (Suc i) ps
       (if i < length h then h[i := h ! i @ [p]]
        else h @ replicate (i - length h) [] @ [[p]])"

definition recordHistory :: "'own SimulationClass \<Rightarrow> PhysicsState \<Rightarrow> 'own BaseSimulation
    \<Rightarrow> 'own BaseSimulation" where
  "recordHistory C physics this =
     (if \<not> recordingEnabled this then this
      else
        let k = - int maxHistoryLength + 1000;
            this1 =
              (if length (timeHistory this) \<ge> maxHistoryLength
               then this\<lparr>timeHistory := js_slice_from k (timeHistory this),
                         positionHistory := js_slice_from k (positionHistory this),
                         velocityHistory := js_slice_from k (velocityHistory this),
                         energyHistory := js_slice_from k (energyHistory this),
                         phaseHistory := map (js_slice_from k) (phaseHistory this)\<rparr>
               else this);
            this2 = this1\<lparr>timeHistory := timeHistory this1 @ [phys_time physics]\<rparr>;
            this3 = this2\<lparr>positionHistory := positionHistory this2 @ [positions physics]\<rparr>;
            this4 = this3\<lparr>velocityHistory := velocityHistory this3 @ [velocities physics]\<rparr>;
            this5 = this4\<lparr>energyHistory := energyHistory this4 @ [getEnergy C this4]\<rparr>
        in case getPhaseSpace C of
             None \<Rightarrow> this5
           | Some get \<Rightarrow> this5\<lparr>phaseHistory := push_phase 0 (get this5) (phaseHistory this5)\<rparr>)"

text \<open>
  \<open>step\<close> works on the object and on the integrator module's scratch arrays, and
  returns the physics state with both.
\<close>

definition step :: "'own SimulationClass \<Rightarrow> number \<Rightarrow> 'own BaseSimulation \<times> physics_module
    \<Rightarrow> PhysicsState \<times> 'own BaseSimulation \<times> physics_module" where
  "step C dt w =
     (let this = fst w;
          actualDt = js_or (fixedTimestep (config C)) dt;
          r = (case integrationMethod (config C) of
                 Euler \<Rightarrow> euler (state this) (time this) actualDt (computeDerivatives C this) (snd w)
               | _ \<Rightarrow> rk4 (state this) (time this) actualDt (computeDerivatives C this) (snd w));
          this1 = this\<lparr>state := fst r\<rparr>;
          this2 = this1\<lparr>time := time this1 + actualDt\<rparr>;
          physicsState = stateToPhysics C this2 (state this2)
      in (physicsState, recordHistory C physicsState this2, snd r))"

definition enableRecording :: "bool \<Rightarrow> 'own BaseSimulation \<Rightarrow> 'own BaseSimulation" where
  "enableRecording enabled this =
     (let this1 = this\<lparr>recordingEnabled := enabled\<rparr>
      in if enabled then clearHistory this1 else this1)"

definition reset :: "'own BaseSimulation \<Rightarrow> 'own BaseSimulation" where
  "reset this = clearHistory (this\<lparr>time := 0, state := initialState this\<rparr>)"

definition export :: "'own SimulationClass \<Rightarrow> 'own BaseSimulation \<Rightarrow> ExportData" where
  "export C this =
     \<lparr> export_meta = meta (config C), export_params = params this,
       series_time = timeHistory this, series_positions = positionHistory this,
       series_velocities = velocityHistory this, series_energy = energyHistory this,
       phaseSpace = (if length (phaseHistory this) > 0 then Some (phaseHistory this) else None) \<rparr>"

definition getTime :: "'own BaseSimulation \<Rightarrow> number" where
  "getTime this = time this"

definition getParams :: "'own BaseSimulation \<Rightarrow> Params" where
  "getParams this = params this"

definition setParams :: "Params \<Rightarrow> 'own BaseSimulation \<Rightarrow> 'own BaseSimulation" where
  "setParams p this = this\<lparr>params := params this ++ p\<rparr>"

subsection \<open>The public operations\<close>

text \<open>
  A call of a public method of \<open>BaseSimulation\<close>, and what it leaves behind: the
  object and the integrator module, or nothing when the call does not return. The
  methods that only read leave both as they are.
\<close>

datatype Call =
    Init Params
  | Step number
  | GetEnergy
  | GetPhaseSpace
  | Reset
  | EnableRecording bool
  | Export
  | GetTime
  | GetParams
  | SetParams Params

fun exec :: "'own SimulationClass \<Rightarrow> Call \<Rightarrow> 'own BaseSimulation \<times> physics_module
    \<Rightarrow> ('own BaseSimulation \<times> physics_module) option" where
  "exec C (Init p) w = map_option (\<lambda>this. (this, snd w)) (init (config C) (createInitialState C) p (fst w))"
| "exec C (Step dt) w = Some (snd (step C dt w))"
| "exec C Reset w = Some (reset (fst w), snd w)"
| "exec C (EnableRecording enabled) w = Some (enableRecording enabled (fst w), snd w)"
| "exec C (SetParams p) w = Some (setParams p (fst w), snd w)"
| "exec C _ w = Some w"

fun exec_all :: "'own SimulationClass \<Rightarrow> Call list \<Rightarrow> 'own BaseSimulation \<times> physics_module
    \<Rightarrow> ('own BaseSimulation \<times> physics_module) option" where
  "exec_all C [] w = Some w"
| "exec_all C (c # cs) w = Option.bind (exec C c w) (exec_all C cs)"

text \<open>Stepping once for each \<open>dt\<close> of a list, collecting the physics states.\<close>

fun run_steps :: "'own SimulationClass \<Rightarrow> number list \<Rightarrow> 'own BaseSimulation \<times> physics_module
    \<Rightarrow> PhysicsState list \<times> 'own BaseSimulation \<times> physics_module" where
  "run_steps C [] w = ([], w)"
| "run_steps C (dt # dts) w =
     (let r = step C dt w; rs = run_steps C dts (snd r) in (fst r # fst rs, snd rs))"

text \<open>
  The four export buffers of one length, which is at most the maximum.
\<close>

definition history_aligned :: "'own BaseSimulation \<Rightarrow> bool" where
  "history_aligned this =
     (length (positionHistory this) = length (timeHistory this)
      \<and> length (velocityHistory this) = length (timeHistory this)
      \<and> length (energyHistory this) = length (timeHistory this)
      \<and> length (timeHistory this) \<le> maxHistoryLength)"

subsection \<open>The concrete classes\<close>

text \<open>
  \<open>SimplePendulum\<close>: its own field is the scratch array \<open>_derivBuffer\<close>. Every call
  of \<open>computeDerivatives\<close> overwrites both slots and reads none, so what a call leaves
  in the array is not kept.
\<close>

definition SimplePendulum :: "number list SimulationClass" where
  "SimplePendulum =
     \<lparr> config = SimplePendulum_config,
       createInitialState =
         (\<lambda>this. Some (SimplePendulum_createInitialState (params this), own this)),
       computeDerivatives =
         (\<lambda>this. SimplePendulum_computeDerivatives (params this) (own this)),
       stateToPhysics = (\<lambda>this. SimplePendulum_stateToPhysics (params this) (time this)),
       getEnergy = (\<lambda>this. SimplePendulum_getEnergy (params this) (state this)),
       getPhaseSpace = Some (\<lambda>this. SimplePendulum_getPhaseSpace (time this) (state this)) \<rparr>"

definition new_SimplePendulum :: "number list BaseSimulation" where
  "new_SimplePendulum = new_simulation [0, 0]"



text \<open>An object as \<open>init\<close> and \<open>reset\<close> leave it.\<close>

definition at_start :: "'own BaseSimulation \<Rightarrow> bool" where
  "at_start this =
     (time this = 0 \<and> state this = initialState this \<and> timeHistory this = []
      \<and> positionHistory this = [] \<and> velocityHistory this = [] \<and> energyHistory this = []
      \<and> phaseHistory this = [])"

section \<open>Facts about numbers, arrays and loops\<close>

lemma Fin_arith [simp]:
  "Fin a + Fin b = Fin (a + b)"
  "Fin a - Fin b = Fin (a - b)"
  "Fin a * Fin b = Fin (a * b)"
  "- Fin a = Fin (- a)"
  "b \<noteq> 0 \<Longrightarrow> Fin a / Fin b = Fin (a / b)"
  "(Fin a < Fin b) = (a < b)"
  "(Fin a \<le> Fin b) = (a \<le> b)"
  by (auto simp: plus_number_def minus_number_def times_number_def uminus_number_def
      divide_number_def less_number_def less_eq_number_def)

lemma zero_one_number [simp]: "(0 :: number) = Fin 0" "(1 :: number) = Fin 1"
  by (simp_all add: zero_number_def one_number_def)

lemma numeral_number [simp]: "(numeral k :: number) = Fin (numeral k)"
proof (induction k)
  case One
  show ?case by (simp only: numeral_One zero_one_number)
next
  case (Bit0 k)
  have "(numeral (Num.Bit0 k) :: number) = numeral k + numeral k"
    by (rule numeral_Bit0)
  also have "\<dots> = Fin (numeral k + numeral k)"
    by (simp only: Bit0 Fin_arith)
  finally show ?case by (simp only: numeral_Bit0)
next
  case (Bit1 k)
  have "(numeral (Num.Bit1 k) :: number) = numeral k + numeral k + 1"
    by (rule numeral_Bit1)
  also have "\<dots> = Fin (numeral k + numeral k + 1)"
    by (simp only: Bit1 Fin_arith zero_one_number)
  finally show ?case by (simp only: numeral_Bit1)
qed

lemma for_set_eq_aux:
  "i \<le> n \<Longrightarrow> i \<le> length buf \<Longrightarrow>
   for_set i n e buf = take i buf @ map e [i..<n] @ drop n buf"
proof (induction i n e buf rule: for_set.induct)
  case (1 i n e buf)
  show ?case
  proof (cases "i < n")
    case False
    with "1.prems" have "i = n" by simp
    then show ?thesis by (simp add: for_set.simps [of n n])
  next
    case True
    let ?buf' = "js_set buf i (e i)"
    have len: "Suc i \<le> length ?buf'"
      using "1.prems" by (simp add: js_set_def)
    have tk: "take (Suc i) ?buf' = take i buf @ [e i]"
      using "1.prems" by (auto simp: js_set_def take_Suc_conv_app_nth)
    have dr: "drop n ?buf' = drop n buf"
      using "1.prems" True by (auto simp: js_set_def)
    have "for_set i n e buf = for_set (Suc i) n e ?buf'"
      using True by (simp add: for_set.simps [of i])
    also have "\<dots> = take (Suc i) ?buf' @ map e [Suc i..<n] @ drop n ?buf'"
      using "1.IH" [OF True] True len by simp
    also have "\<dots> = take i buf @ map e [i..<n] @ drop n buf"
      using True by (simp add: tk dr upt_conv_Cons)
    finally show ?thesis .
  qed
qed

lemma for_set_eq: "for_set 0 n e buf = map e [0..<n] @ drop n buf"
  using for_set_eq_aux [of 0 n buf e] by simp

lemma js_get_for_set: "i < n \<Longrightarrow> js_get (for_set 0 n e buf) i = e i"
  by (simp add: for_set_eq js_get_def nth_append)

lemma take_for_set: "take n (for_set 0 n e buf) = map e [0..<n]"
  by (simp add: for_set_eq)

lemma drop_for_set: "drop n (for_set 0 n e buf) = drop n buf"
  by (simp add: for_set_eq)

lemma js_get_take: "i < n \<Longrightarrow> js_get (take n xs) i = js_get xs i"
  by (simp add: js_get_def)

lemma js_get_take_eq: "take n a = take n b \<Longrightarrow> i < n \<Longrightarrow> js_get a i = js_get b i"
  by (metis js_get_take)

lemma map_upt_cong: "(\<And>i. i < n \<Longrightarrow> e i = e' i) \<Longrightarrow> map e [0..<n] = map e' [0..<n]"
  by simp

lemma js_set_2: "length buf = 2 \<Longrightarrow> js_set (js_set buf 0 a) (Suc 0) b = [a, b]"
  by (cases buf; cases "tl buf") (auto simp: js_set_def)

lemma js_set_4:
  "length buf = 4 \<Longrightarrow>
   js_set (js_set (js_set (js_set buf 0 a) (Suc 0) b) 2 c) 3 d = [a, b, c, d]"
  by (cases buf; cases "tl buf"; cases "tl (tl buf)"; cases "tl (tl (tl buf))")
    (auto simp: js_set_def)

lemma js_slice_from_neg: "k < 0 \<Longrightarrow> js_slice_from k xs = drop (length xs - nat (- k)) xs"
proof -
  assume "k < 0"
  then have "nat (int (length xs) + k) = length xs - nat (- k)"
    by linarith
  with \<open>k < 0\<close> show ?thesis
    by (simp add: js_slice_from_def)
qed

section \<open>The Runge-Kutta step\<close>

lemma length_vec_axpy [simp]: "length (vec_axpy y a k) = length y"
  by (simp add: vec_axpy_def)

lemma vec_axpy_cong:
  "(\<And>i. i < length y \<Longrightarrow> js_get k i = js_get k' i) \<Longrightarrow> vec_axpy y a k = vec_axpy y a k'"
  by (simp add: vec_axpy_def)

lemma axpy_for_set:
  "for_set 0 (length y)
     (\<lambda>i. js_get y i + a * js_get (for_set 0 (length y) (js_get k) kb) i) tb
   = vec_axpy y a k @ drop (length y) tb"
  unfolding for_set_eq [of "length y" _ tb] vec_axpy_def
  by (simp add: js_get_for_set)

text \<open>
  The step reads the scratch arrays only where it has just written them, except that
  the derivative function is shown the whole of \<open>_rk4_temp\<close>.
\<close>

lemma rk4_fst:
  "fst (rk4 y t dt f M) = rk4_on_scratch y t dt f (drop (length y) (rk4_temp M))"
proof -
  define n where "n = length y"
  define T where "T = drop n (rk4_temp M)"
  define k1 where "k1 = f t y"
  define temp1 where "temp1 = for_set 0 n
    (\<lambda>i. js_get y i + dt / 2 * js_get (for_set 0 n (js_get k1) (rk4_k1 M)) i) (rk4_temp M)"
  define k2 where "k2 = f (t + dt / 2) temp1"
  define temp2 where "temp2 = for_set 0 n
    (\<lambda>i. js_get y i + dt / 2 * js_get (for_set 0 n (js_get k2) (rk4_k2 M)) i) temp1"
  define k3 where "k3 = f (t + dt / 2) temp2"
  define temp3 where "temp3 = for_set 0 n
    (\<lambda>i. js_get y i + dt * js_get (for_set 0 n (js_get k3) (rk4_k3 M)) i) temp2"
  define k4 where "k4 = f (t + dt) temp3"
  have t1: "temp1 = vec_axpy y (dt / 2) k1 @ T"
    unfolding temp1_def n_def T_def by (rule axpy_for_set)
  have t2: "temp2 = vec_axpy y (dt / 2) k2 @ T"
    unfolding temp2_def n_def by (simp add: axpy_for_set t1 n_def)
  have t3: "temp3 = vec_axpy y dt k3 @ T"
    unfolding temp3_def n_def by (simp add: axpy_for_set t2 n_def)
  have "fst (rk4 y t dt f M) =
      map (\<lambda>i. js_get y i + dt / 6 * (js_get (for_set 0 n (js_get k1) (rk4_k1 M)) i
            + 2 * js_get (for_set 0 n (js_get k2) (rk4_k2 M)) i
            + 2 * js_get (for_set 0 n (js_get k3) (rk4_k3 M)) i
            + js_get (for_set 0 n (js_get k4) (rk4_k4 M)) i)) [0..<n]"
    unfolding rk4_def Let_def fst_conv take_for_set n_def k1_def k2_def k3_def k4_def
      temp1_def temp2_def temp3_def ..
  also have "\<dots> = map (\<lambda>i. js_get y i
        + dt / 6 * (js_get k1 i + 2 * js_get k2 i + 2 * js_get k3 i + js_get k4 i)) [0..<n]"
    by (rule map_upt_cong) (simp add: js_get_for_set)
  also have "\<dots> = rk4_on_scratch y t dt f T"
    unfolding rk4_on_scratch_def Let_def k1_def [symmetric] t1 [symmetric] k2_def [symmetric]
      t2 [symmetric] k3_def [symmetric] t3 [symmetric] k4_def [symmetric] n_def ..
  finally show ?thesis unfolding T_def n_def .
qed

lemma rk4_temp_tail:
  "drop (length y) (rk4_temp (snd (rk4 y t dt f M))) = drop (length y) (rk4_temp M)"
  by (simp add: rk4_def Let_def drop_for_set)

lemma length_rk4 [simp]: "length (fst (rk4 y t dt f M)) = length y"
  by (simp add: rk4_fst rk4_on_scratch_def Let_def)

lemma prefix_determined_get:
  assumes "prefix_determined n f" "take n s = take n s'" "i < n"
  shows "js_get (f t s) i = js_get (f t s') i"
  using assms unfolding prefix_determined_def by (blast intro: js_get_take_eq)

lemma prefix_determined_tail:
  assumes "prefix_determined (length y) f" "i < length y"
  shows "js_get (f t (vec_axpy y a k @ T)) i = js_get (f t (vec_axpy y a k)) i"
  by (rule prefix_determined_get [OF assms(1) _ assms(2)]) simp

lemma rk4_on_scratch_classic:
  assumes pd: "prefix_determined (length y) f"
  shows "rk4_on_scratch y t dt f T = rk4_classic y t dt f"
proof -
  define k1 where "k1 = f t y"
  define k2 where "k2 = f (t + dt / 2) (vec_axpy y (dt / 2) k1)"
  define k2' where "k2' = f (t + dt / 2) (vec_axpy y (dt / 2) k1 @ T)"
  define k3 where "k3 = f (t + dt / 2) (vec_axpy y (dt / 2) k2)"
  define k3' where "k3' = f (t + dt / 2) (vec_axpy y (dt / 2) k2' @ T)"
  define k4 where "k4 = f (t + dt) (vec_axpy y dt k3)"
  define k4' where "k4' = f (t + dt) (vec_axpy y dt k3' @ T)"
  have e2: "js_get k2' i = js_get k2 i" if "i < length y" for i
    unfolding k2_def k2'_def using pd that by (rule prefix_determined_tail)
  have a2: "vec_axpy y (dt / 2) k2' = vec_axpy y (dt / 2) k2"
    by (rule vec_axpy_cong) (rule e2)
  have e3: "js_get k3' i = js_get k3 i" if "i < length y" for i
    unfolding k3_def k3'_def a2 using pd that by (rule prefix_determined_tail)
  have a3: "vec_axpy y dt k3' = vec_axpy y dt k3"
    by (rule vec_axpy_cong) (rule e3)
  have e4: "js_get k4' i = js_get k4 i" if "i < length y" for i
    unfolding k4_def k4'_def a3 using pd that by (rule prefix_determined_tail)
  have "rk4_on_scratch y t dt f T =
      map (\<lambda>i. js_get y i
        + dt / 6 * (js_get k1 i + 2 * js_get k2' i + 2 * js_get k3' i + js_get k4' i))
        [0..<length y]"
    unfolding rk4_on_scratch_def Let_def k1_def k2'_def k3'_def k4'_def ..
  also have "\<dots> = map (\<lambda>i. js_get y i
        + dt / 6 * (js_get k1 i + 2 * js_get k2 i + 2 * js_get k3 i + js_get k4 i))
        [0..<length y]"
    by (rule map_upt_cong) (simp add: e2 e3 e4)
  also have "\<dots> = rk4_classic y t dt f"
    unfolding rk4_classic_def Let_def k1_def k2_def k3_def k4_def ..
  finally show ?thesis .
qed

lemma SimplePendulum_derivatives:
  "length buf = 2 \<Longrightarrow> SimplePendulum_computeDerivatives p buf t s =
     [js_get s 1,
      - (param p ''gravity'' / param p ''length'') * Math_sin (js_get s 0)
        - param p ''damping'' * js_get s 1]"
  by (simp add: SimplePendulum_computeDerivatives_def Let_def js_set_2)

lemma SimplePendulum_prefix_determined:
  assumes "length buf = 2"
  shows "prefix_determined 2 (SimplePendulum_computeDerivatives p buf)"
  unfolding prefix_determined_def
proof (intro allI impI)
  fix t s s' assume "take 2 s = take 2 (s' :: number list)"
  then have "js_get s 0 = js_get s' 0" "js_get s 1 = js_get s' 1"
    using js_get_take_eq [of 2 s s' 0] js_get_take_eq [of 2 s s' 1] by simp_all
  then show "take 2 (SimplePendulum_computeDerivatives p buf t s)
     = take 2 (SimplePendulum_computeDerivatives p buf t s')"
    by (simp add: SimplePendulum_derivatives [OF assms])
qed

lemma DoublePendulum_prefix_determined:
  assumes "length buf = 4"
  shows "prefix_determined 4 (DoublePendulum_computeDerivatives p buf)"
  unfolding prefix_determined_def
proof (intro allI impI)
  fix t s s' assume "take 4 s = take 4 (s' :: number list)"
  then have e: "js_get s 0 = js_get s' 0" "js_get s 1 = js_get s' 1"
      "js_get s 2 = js_get s' 2" "js_get s 3 = js_get s' 3"
    using js_get_take_eq [of 4 s s'] by simp_all
  have "DoublePendulum_computeDerivatives p buf t s
     = DoublePendulum_computeDerivatives p buf t s'"
    unfolding DoublePendulum_computeDerivatives_def e ..
  then show "take 4 (DoublePendulum_computeDerivatives p buf t s)
     = take 4 (DoublePendulum_computeDerivatives p buf t s')"
    by simp
qed

text \<open>
  C1, as stated: for every state vector of at most twenty components and every
  derivative function, \<open>rk4\<close> returns the classic update. It fails for a derivative
  function that looks at the length of its argument: on a state of one component the
  first stage is given one component and the other three are given the twenty slots of
  the scratch array. With \<open>y = [0]\<close>, \<open>dt = 6\<close> and the rate \<open>length_rate\<close> the
  code returns \<open>[0 + 1\<cdot>(1 + 2\<cdot>20 + 2\<cdot>20 + 20)] = [101]\<close>, the classic update is
  \<open>[0 + 1\<cdot>(1 + 2 + 2 + 1)] = [6]\<close>.
\<close>

theorem rk4_classic_counterexample:
  "length [0 :: number] \<le> 20
   \<and> fst (rk4 [0] 0 6 length_rate physics_module_init) = [101]
   \<and> rk4_classic [0] 0 6 length_rate = [6]"
  by (simp add: rk4_fst rk4_on_scratch_def rk4_classic_def Let_def vec_axpy_def js_get_def
      length_rate_def physics_module_init_def)

text \<open>
  C1, amended: for a state vector \<open>y\<close> of any length \<open>n\<close>, \<open>rk4\<close> returns a vector of
  length \<open>n\<close>, the four-stage update in which the stages after the first call the
  derivative function on the scratch array: the stage's vector in its first \<open>n\<close>
  components, followed by what the array held beyond them. For every derivative
  function whose first \<open>n\<close> result components depend on the first \<open>n\<close> components of
  its argument only, this is the classic Runge-Kutta update.
\<close>

theorem rk4_update:
  "length (fst (rk4 y t dt f M)) = length y
   \<and> fst (rk4 y t dt f M) = rk4_on_scratch y t dt f (drop (length y) (rk4_temp M))
   \<and> (prefix_determined (length y) f \<longrightarrow> fst (rk4 y t dt f M) = rk4_classic y t dt f)"
  using length_rk4 [of y t dt f M] rk4_fst [of y t dt f M] rk4_on_scratch_classic [of y f t dt]
  by simp

theorem rk4_update_witness:
  "prefix_determined (length [Fin (pi / 2), 0])
     (SimplePendulum_computeDerivatives (getDefaultParams SimplePendulum_config) [0, 0])
   \<and> fst (rk4 [Fin (pi / 2), 0] 0 1
        (SimplePendulum_computeDerivatives (getDefaultParams SimplePendulum_config) [0, 0])
        physics_module_init)
     = rk4_classic [Fin (pi / 2), 0] 0 1
        (SimplePendulum_computeDerivatives (getDefaultParams SimplePendulum_config) [0, 0])"
proof -
  let ?f = "SimplePendulum_computeDerivatives (getDefaultParams SimplePendulum_config) [0, 0]"
  have "length [0, 0 :: number] = 2" by simp
  then have "prefix_determined 2 ?f"
    by (rule SimplePendulum_prefix_determined)
  then have pd: "prefix_determined (length [Fin (pi / 2), 0]) ?f"
    by (simp add: numeral_2_eq_2)
  with rk4_update [of "[Fin (pi / 2), 0]" 0 1 ?f physics_module_init] show ?thesis
    by blast
qed

section \<open>The double pendulum\<close>

lemma lagrange_polynomial_1:
  fixes sd cd s2 c2 :: real
  assumes "sd * sd + cd * cd = 1" "s2 * s2 + c2 * c2 = 1"
  shows "(m1 + m2) * (- g * (2 * m1 + m2) * (sd * c2 + cd * s2) - m2 * g * (sd * c2 - cd * s2)
      - 2 * sd * m2 * (w2 * w2 * L2 + w1 * w1 * L1 * cd))
    + m2 * (2 * sd * (w1 * w1 * L1 * (m1 + m2) + g * (m1 + m2) * (cd * c2 - sd * s2)
        + w2 * w2 * L2 * m2 * cd)) * cd
    + (m2 * L2 * w2 * w2 * sd + (m1 + m2) * g * (sd * c2 + cd * s2))
      * (2 * m1 + m2 - m2 * (1 - 2 * (sd * sd))) = 0"
  using assms by algebra

lemma lagrange_polynomial_2:
  fixes sd cd s2 c2 :: real
  assumes "sd * sd + cd * cd = 1" "s2 * s2 + c2 * c2 = 1"
  shows "(2 * sd * (w1 * w1 * L1 * (m1 + m2) + g * (m1 + m2) * (cd * c2 - sd * s2)
        + w2 * w2 * L2 * m2 * cd))
    + (- g * (2 * m1 + m2) * (sd * c2 + cd * s2) - m2 * g * (sd * c2 - cd * s2)
      - 2 * sd * m2 * (w2 * w2 * L2 + w1 * w1 * L1 * cd)) * cd
    + (- L1 * w1 * w1 * sd + g * s2) * (2 * m1 + m2 - m2 * (1 - 2 * (sd * sd))) = 0"
  using assms by algebra

lemma lagrange_closed_form:
  assumes d1: "shared_denominator L1 m1 m2 th1 th2 \<noteq> 0"
    and d2: "shared_denominator L2 m1 m2 th1 th2 \<noteq> 0"
  shows "lagrange_equations L1 L2 m1 m2 g th1 th2 w1 w2
    (lagrange_alpha1 L1 L2 m1 m2 g th1 th2 w1 w2) (lagrange_alpha2 L1 L2 m1 m2 g th1 th2 w1 w2)"
proof -
  define sd cd s2 c2 where "sd = sin (th1 - th2)" and "cd = cos (th1 - th2)"
    and "s2 = sin th2" and "c2 = cos th2"
  define D where "D = 2 * m1 + m2 - m2 * (1 - 2 * (sd * sd))"
  define N1 where "N1 = - g * (2 * m1 + m2) * (sd * c2 + cd * s2) - m2 * g * (sd * c2 - cd * s2)
      - 2 * sd * m2 * (w2 * w2 * L2 + w1 * w1 * L1 * cd)"
  define N2 where "N2 = 2 * sd * (w1 * w1 * L1 * (m1 + m2) + g * (m1 + m2) * (cd * c2 - sd * s2)
        + w2 * w2 * L2 * m2 * cd)"
  have r1: "sd * sd + cd * cd = 1" and r2: "s2 * s2 + c2 * c2 = 1"
    by (simp_all add: sd_def cd_def s2_def c2_def power2_eq_square [symmetric])
  have s1: "sin th1 = sd * c2 + cd * s2"
    using sin_add [of "th1 - th2" th2] by (simp add: sd_def cd_def s2_def c2_def)
  have c1: "cos th1 = cd * c2 - sd * s2"
    using cos_add [of "th1 - th2" th2] by (simp add: sd_def cd_def s2_def c2_def)
  have s3: "sin (th1 - 2 * th2) = sd * c2 - cd * s2"
    using sin_diff [of "th1 - th2" th2] by (simp add: sd_def cd_def s2_def c2_def)
  have c3: "cos (2 * (th1 - th2)) = 1 - 2 * (sd * sd)"
    using cos_double_sin [of "th1 - th2"] by (simp only: sd_def power2_eq_square)
  have sh: "shared_denominator L m1 m2 th1 th2 = L * D" for L
    unfolding shared_denominator_def c3 D_def ..
  have nz: "L1 \<noteq> 0" "L2 \<noteq> 0" "D \<noteq> 0"
    using d1 d2 by (auto simp: sh)
  have a1: "lagrange_alpha1 L1 L2 m1 m2 g th1 th2 w1 w2 = N1 / (L1 * D)"
    unfolding lagrange_alpha1_def sh s1 s3 N1_def sd_def [symmetric] cd_def [symmetric] ..
  have a2: "lagrange_alpha2 L1 L2 m1 m2 g th1 th2 w1 w2 = N2 / (L2 * D)"
    unfolding lagrange_alpha2_def sh c1 N2_def sd_def [symmetric] cd_def [symmetric] ..
  have p1: "(m1 + m2) * N1 + m2 * N2 * cd
      + (m2 * L2 * w2 * w2 * sd + (m1 + m2) * g * (sd * c2 + cd * s2)) * D = 0"
    unfolding N1_def N2_def D_def using r1 r2 by (rule lagrange_polynomial_1)
  have p2: "N2 + N1 * cd + (- L1 * w1 * w1 * sd + g * s2) * D = 0"
    unfolding N1_def N2_def D_def using r1 r2 by (rule lagrange_polynomial_2)
  have e1: "(m1 + m2) * L1 * (N1 / (L1 * D)) + m2 * L2 * (N2 / (L2 * D)) * cd
      + m2 * L2 * w2 * w2 * sd + (m1 + m2) * g * (sd * c2 + cd * s2)
    = ((m1 + m2) * N1 + m2 * N2 * cd
      + (m2 * L2 * w2 * w2 * sd + (m1 + m2) * g * (sd * c2 + cd * s2)) * D) / D"
    using nz by (simp add: field_simps)
  have e2: "m2 * L2 * (N2 / (L2 * D)) + m2 * L1 * (N1 / (L1 * D)) * cd
      - m2 * L1 * w1 * w1 * sd + m2 * g * s2
    = m2 * ((N2 + N1 * cd + (- L1 * w1 * w1 * sd + g * s2) * D) / D)"
    using nz by (simp add: field_simps)
  show ?thesis
    unfolding lagrange_equations_def a1 a2 s1 sd_def [symmetric] cd_def [symmetric]
      s2_def [symmetric] e1 e2 p1 p2
    by simp
qed

lemma shared_denominator_positive:
  assumes "0 < L" "0 < m1" "0 \<le> m2"
  shows "0 < shared_denominator L m1 m2 th1 th2"
proof -
  have "cos (2 * (th1 - th2)) \<le> 1" by simp
  then have "m2 * cos (2 * (th1 - th2)) \<le> m2 * 1"
    using assms(3) by (rule mult_left_mono)
  then have "0 < 2 * m1 + m2 - m2 * cos (2 * (th1 - th2))"
    using assms(2) by simp
  then show ?thesis
    unfolding shared_denominator_def using assms(1) by simp
qed

lemma DoublePendulum_shape:
  "length buf = 4 \<Longrightarrow> length s = 4 \<Longrightarrow>
   length (DoublePendulum_computeDerivatives p buf t s) = 4
   \<and> js_get (DoublePendulum_computeDerivatives p buf t s) 0 = js_get s 2
   \<and> js_get (DoublePendulum_computeDerivatives p buf t s) 1 = js_get s 3"
  by (simp add: DoublePendulum_computeDerivatives_def Let_def js_set_4 js_get_def)

lemma DoublePendulum_finite:
  assumes "length buf = 4"
    and "param p ''length1'' = Fin L1" "param p ''length2'' = Fin L2"
    and "param p ''mass1'' = Fin m1" "param p ''mass2'' = Fin m2"
    and "param p ''gravity'' = Fin g" "param p ''damping'' = Fin damping"
    and "shared_denominator L1 m1 m2 th1 th2 \<noteq> 0" "shared_denominator L2 m1 m2 th1 th2 \<noteq> 0"
  shows "DoublePendulum_computeDerivatives p buf t [Fin th1, Fin th2, Fin w1, Fin w2]
    = [Fin w1, Fin w2,
       Fin (lagrange_alpha1 L1 L2 m1 m2 g th1 th2 w1 w2 - damping * w1),
       Fin (lagrange_alpha2 L1 L2 m1 m2 g th1 th2 w1 w2 - damping * w2)]"
  using assms
  by (simp add: DoublePendulum_computeDerivatives_def Let_def js_set_4 js_get_def
      lagrange_alpha1_def lagrange_alpha2_def shared_denominator_def)

text \<open>
  C2: for a state \<open>[\<theta>1, \<theta>2, \<omega>1, \<omega>2]\<close> and parameters \<open>L1, L2, m1, m2, g, damping\<close>,
  \<open>computeDerivatives\<close> returns \<open>[\<omega>1, \<omega>2, \<alpha>1 - damping\<cdot>\<omega>1, \<alpha>2 - damping\<cdot>\<omega>2]\<close>,
  where \<open>\<alpha>1\<close> and \<open>\<alpha>2\<close> are the closed forms over the denominators
  \<open>L1\<cdot>(2m1 + m2 - m2\<cdot>cos(2(\<theta>1 - \<theta>2)))\<close> and \<open>L2\<cdot>(2m1 + m2 - m2\<cdot>cos(2(\<theta>1 - \<theta>2)))\<close>,
  and these solve the Euler-Lagrange equations of the double pendulum. The values are
  finite and the denominators are not zero (they are positive for positive lengths and
  masses, by \<open>shared_denominator_positive\<close>).
\<close>

theorem DoublePendulum_derivatives:
  "length buf = 4 \<and> param p ''length1'' = Fin L1 \<and> param p ''length2'' = Fin L2
   \<and> param p ''mass1'' = Fin m1 \<and> param p ''mass2'' = Fin m2
   \<and> param p ''gravity'' = Fin g \<and> param p ''damping'' = Fin damping
   \<and> shared_denominator L1 m1 m2 th1 th2 \<noteq> 0 \<and> shared_denominator L2 m1 m2 th1 th2 \<noteq> 0
   \<longrightarrow>
     DoublePendulum_computeDerivatives p buf t [Fin th1, Fin th2, Fin w1, Fin w2]
       = [Fin w1, Fin w2,
          Fin (lagrange_alpha1 L1 L2 m1 m2 g th1 th2 w1 w2 - damping * w1),
          Fin (lagrange_alpha2 L1 L2 m1 m2 g th1 th2 w1 w2 - damping * w2)]
     \<and> lagrange_equations L1 L2 m1 m2 g th1 th2 w1 w2
          (lagrange_alpha1 L1 L2 m1 m2 g th1 th2 w1 w2)
          (lagrange_alpha2 L1 L2 m1 m2 g th1 th2 w1 w2)"
  using DoublePendulum_finite [of buf p L1 L2 m1 m2 g damping th1 th2 t w1 w2]
    lagrange_closed_form [of L1 m1 m2 th1 th2 L2 g w1 w2]
  by blast

lemma DoublePendulum_params_param:
  "param (DoublePendulum_params L1 L2 m1 m2 g damping) ''length1'' = Fin L1"
  "param (DoublePendulum_params L1 L2 m1 m2 g damping) ''length2'' = Fin L2"
  "param (DoublePendulum_params L1 L2 m1 m2 g damping) ''mass1'' = Fin m1"
  "param (DoublePendulum_params L1 L2 m1 m2 g damping) ''mass2'' = Fin m2"
  "param (DoublePendulum_params L1 L2 m1 m2 g damping) ''gravity'' = Fin g"
  "param (DoublePendulum_params L1 L2 m1 m2 g damping) ''damping'' = Fin damping"
  by (simp_all add: DoublePendulum_params_def param_def)

theorem DoublePendulum_derivatives_witness:
  "length [0, 0, 0, 0 :: number] = 4
   \<and> param (DoublePendulum_params (3 / 2) (3 / 2) 1 1 10 (1 / 2)) ''length1'' = Fin (3 / 2)
   \<and> param (DoublePendulum_params (3 / 2) (3 / 2) 1 1 10 (1 / 2)) ''length2'' = Fin (3 / 2)
   \<and> param (DoublePendulum_params (3 / 2) (3 / 2) 1 1 10 (1 / 2)) ''mass1'' = Fin 1
   \<and> param (DoublePendulum_params (3 / 2) (3 / 2) 1 1 10 (1 / 2)) ''mass2'' = Fin 1
   \<and> param (DoublePendulum_params (3 / 2) (3 / 2) 1 1 10 (1 / 2)) ''gravity'' = Fin 10
   \<and> param (DoublePendulum_params (3 / 2) (3 / 2) 1 1 10 (1 / 2)) ''damping'' = Fin (1 / 2)
   \<and> shared_denominator (3 / 2) 1 1 (pi / 2) 0 = 6
   \<and> DoublePendulum_computeDerivatives (DoublePendulum_params (3 / 2) (3 / 2) 1 1 10 (1 / 2))
        [0, 0, 0, 0] 0 [Fin (pi / 2), Fin 0, Fin 1, Fin 1]
      = [Fin 1, Fin 1, Fin (- (23 / 3)), Fin (1 / 2)]
   \<and> lagrange_equations (3 / 2) (3 / 2) 1 1 10 (pi / 2) 0 1 1 (- (43 / 6)) 1"
proof -
  let ?p = "DoublePendulum_params (3 / 2) (3 / 2) 1 1 10 (1 / 2)"
  have d: "shared_denominator (3 / 2) 1 1 (pi / 2) 0 = 6"
    by (simp add: shared_denominator_def)
  have a1: "lagrange_alpha1 (3 / 2) (3 / 2) 1 1 10 (pi / 2) 0 1 1 = - (43 / 6)"
    by (simp add: lagrange_alpha1_def d)
  have a2: "lagrange_alpha2 (3 / 2) (3 / 2) 1 1 10 (pi / 2) 0 1 1 = 1"
    by (simp add: lagrange_alpha2_def d)
  have "DoublePendulum_computeDerivatives ?p [0, 0, 0, 0] 0 [Fin (pi / 2), Fin 0, Fin 1, Fin 1]
      = [Fin 1, Fin 1, Fin (- (43 / 6) - 1 / 2 * 1), Fin (1 - 1 / 2 * 1)]
    \<and> lagrange_equations (3 / 2) (3 / 2) 1 1 10 (pi / 2) 0 1 1 (- (43 / 6)) 1"
    using DoublePendulum_derivatives [of "[0, 0, 0, 0]" ?p "3 / 2" "3 / 2" 1 1 10 "1 / 2"
        "pi / 2" 0 0 1 1]
    unfolding a1 a2 d by (simp add: DoublePendulum_params_param)
  then show ?thesis
    by (simp add: DoublePendulum_params_param d)
qed

section \<open>Energy along the equations of motion\<close>

lemma Math_pow_2: "Math_pow (Fin a) 2 = Fin (a\<^sup>2)"
  by (simp add: numeral_2_eq_2 power2_eq_square)

lemma SimplePendulum_getEnergy_finite:
  assumes "param p ''length'' = Fin L" "param p ''mass'' = Fin m" "param p ''gravity'' = Fin g"
  shows "total (SimplePendulum_getEnergy p [Fin th, Fin w]) = Fin (pendulum_energy L m g th w)"
  using assms
  by (simp add: SimplePendulum_getEnergy_def Let_def js_get_def Math_pow_2 pendulum_energy_def)

lemma DoublePendulum_getEnergy_finite:
  assumes "param p ''length1'' = Fin L1" "param p ''length2'' = Fin L2"
    and "param p ''mass1'' = Fin m1" "param p ''mass2'' = Fin m2"
    and "param p ''gravity'' = Fin g"
  shows "total (DoublePendulum_getEnergy p [Fin th1, Fin th2, Fin w1, Fin w2])
    = Fin (double_pendulum_energy L1 L2 m1 m2 g th1 th2 w1 w2)"
  using assms
  by (simp add: DoublePendulum_getEnergy_def Let_def js_get_def Math_pow_2
      double_pendulum_energy_def)

text \<open>
  With no damping, the energy is a first integral of each model's equations: along
  differentiable angles and angular velocities that satisfy the equations, its time
  derivative is zero.
\<close>

lemma pendulum_energy_rate:
  assumes th: "(th has_real_derivative w t) (at t)"
    and w: "(w has_real_derivative - (g / L) * sin (th t)) (at t)"
    and L: "L \<noteq> 0"
  shows "((\<lambda>t. pendulum_energy L m g (th t) (w t)) has_real_derivative 0) (at t)"
proof -
  have "((\<lambda>t. pendulum_energy L m g (th t) (w t)) has_real_derivative
      1 / 2 * m * (2 * (L * w t) * (L * (- (g / L) * sin (th t))))
      + m * g * (L * (sin (th t) * w t))) (at t)"
    unfolding pendulum_energy_def power2_eq_square
    by (auto intro!: derivative_eq_intros th w simp: algebra_simps)
  also have "1 / 2 * m * (2 * (L * w t) * (L * (- (g / L) * sin (th t))))
      + m * g * (L * (sin (th t) * w t)) = 0"
    using L by (simp add: field_simps)
  finally show ?thesis .
qed

lemma double_pendulum_energy_rate:
  assumes th1: "(th1 has_real_derivative w1 t) (at t)"
    and th2: "(th2 has_real_derivative w2 t) (at t)"
    and w1: "(w1 has_real_derivative a1) (at t)"
    and w2: "(w2 has_real_derivative a2) (at t)"
    and eq: "lagrange_equations L1 L2 m1 m2 g (th1 t) (th2 t) (w1 t) (w2 t) a1 a2"
  shows "((\<lambda>t. double_pendulum_energy L1 L2 m1 m2 g (th1 t) (th2 t) (w1 t) (w2 t))
    has_real_derivative 0) (at t)"
proof -
  define sd cd where "sd = sin (th1 t - th2 t)" and "cd = cos (th1 t - th2 t)"
  have "((\<lambda>t. double_pendulum_energy L1 L2 m1 m2 g (th1 t) (th2 t) (w1 t) (w2 t))
    has_real_derivative
      L1 * w1 t * ((m1 + m2) * L1 * a1 + m2 * L2 * a2 * cd
        + m2 * L2 * w2 t * w2 t * sd + (m1 + m2) * g * sin (th1 t))
      + L2 * w2 t * (m2 * L2 * a2 + m2 * L1 * a1 * cd
        - m2 * L1 * w1 t * w1 t * sd + m2 * g * sin (th2 t))) (at t)"
    unfolding double_pendulum_energy_def power2_eq_square sd_def cd_def
    by (auto intro!: derivative_eq_intros th1 th2 w1 w2 simp: algebra_simps)
  also have "(m1 + m2) * L1 * a1 + m2 * L2 * a2 * cd
        + m2 * L2 * w2 t * w2 t * sd + (m1 + m2) * g * sin (th1 t) = 0"
    using eq unfolding lagrange_equations_def sd_def cd_def by simp
  also have "m2 * L2 * a2 + m2 * L1 * a1 * cd
        - m2 * L1 * w1 t * w1 t * sd + m2 * g * sin (th2 t) = 0"
    using eq unfolding lagrange_equations_def sd_def cd_def by simp
  finally show ?thesis by simp
qed


text \<open>
  Hence, along every solution of the equations that \<open>computeDerivatives\<close> defines with
  \<open>damping = 0\<close>, the total energy of \<open>getEnergy\<close> is the same at all times.
\<close>

lemma SimplePendulum_energy_constant:
  assumes buf: "length buf = 2"
    and p: "param p ''length'' = Fin L" "param p ''mass'' = Fin m"
      "param p ''gravity'' = Fin g" "param p ''damping'' = Fin 0"
    and L: "L \<noteq> 0"
    and th: "\<And>t. (th has_real_derivative d1 t) (at t)"
    and w: "\<And>t. (w has_real_derivative d2 t) (at t)"
    and ode: "\<And>t. SimplePendulum_computeDerivatives p buf (Fin t) [Fin (th t), Fin (w t)]
      = [Fin (d1 t), Fin (d2 t)]"
  shows "total (SimplePendulum_getEnergy p [Fin (th t), Fin (w t)])
    = total (SimplePendulum_getEnergy p [Fin (th 0), Fin (w 0)])"
proof -
  have d: "d1 t = w t \<and> d2 t = - (g / L) * sin (th t)" for t
    using ode [of t] L
    by (simp add: SimplePendulum_derivatives [OF buf] p js_get_def)
  have "((\<lambda>t. pendulum_energy L m g (th t) (w t)) has_real_derivative 0) (at t)" for t
    using th [of t] w [of t] L unfolding d [THEN conjunct1] d [THEN conjunct2]
    by (rule pendulum_energy_rate)
  then have "pendulum_energy L m g (th t) (w t) = pendulum_energy L m g (th 0) (w 0)"
    using DERIV_isconst_all [of "\<lambda>t. pendulum_energy L m g (th t) (w t)" t 0] by simp
  then show ?thesis
    by (simp only: SimplePendulum_getEnergy_finite [OF p(1-3)])
qed

lemma DoublePendulum_energy_constant:
  assumes buf: "length buf = 4"
    and p: "param p ''length1'' = Fin L1" "param p ''length2'' = Fin L2"
      "param p ''mass1'' = Fin m1" "param p ''mass2'' = Fin m2"
      "param p ''gravity'' = Fin g" "param p ''damping'' = Fin 0"
    and pos: "0 < L1" "0 < L2" "0 < m1" "0 \<le> m2"
    and th1: "\<And>t. (th1 has_real_derivative d1 t) (at t)"
    and th2: "\<And>t. (th2 has_real_derivative d2 t) (at t)"
    and w1: "\<And>t. (w1 has_real_derivative d3 t) (at t)"
    and w2: "\<And>t. (w2 has_real_derivative d4 t) (at t)"
    and ode: "\<And>t. DoublePendulum_computeDerivatives p buf (Fin t)
        [Fin (th1 t), Fin (th2 t), Fin (w1 t), Fin (w2 t)]
      = [Fin (d1 t), Fin (d2 t), Fin (d3 t), Fin (d4 t)]"
  shows "total (DoublePendulum_getEnergy p [Fin (th1 t), Fin (th2 t), Fin (w1 t), Fin (w2 t)])
    = total (DoublePendulum_getEnergy p [Fin (th1 0), Fin (th2 0), Fin (w1 0), Fin (w2 0)])"
proof -
  let ?E = "\<lambda>t. double_pendulum_energy L1 L2 m1 m2 g (th1 t) (th2 t) (w1 t) (w2 t)"
  have nz: "shared_denominator L1 m1 m2 (th1 t) (th2 t) \<noteq> 0"
    "shared_denominator L2 m1 m2 (th1 t) (th2 t) \<noteq> 0" for t
    using shared_denominator_positive [OF pos(1) pos(3) pos(4), of "th1 t" "th2 t"]
      shared_denominator_positive [OF pos(2) pos(3) pos(4), of "th1 t" "th2 t"]
    by simp_all
  have d: "d1 t = w1 t \<and> d2 t = w2 t
      \<and> d3 t = lagrange_alpha1 L1 L2 m1 m2 g (th1 t) (th2 t) (w1 t) (w2 t)
      \<and> d4 t = lagrange_alpha2 L1 L2 m1 m2 g (th1 t) (th2 t) (w1 t) (w2 t)" for t
    using ode [of t]
    unfolding DoublePendulum_finite [OF buf p nz]
    by auto
  have "(?E has_real_derivative 0) (at t)" for t
  proof (rule double_pendulum_energy_rate)
    show "(th1 has_real_derivative w1 t) (at t)" using th1 [of t] d [of t] by simp
    show "(th2 has_real_derivative w2 t) (at t)" using th2 [of t] d [of t] by simp
    show "(w1 has_real_derivative d3 t) (at t)" by (rule w1)
    show "(w2 has_real_derivative d4 t) (at t)" by (rule w2)
    show "lagrange_equations L1 L2 m1 m2 g (th1 t) (th2 t) (w1 t) (w2 t) (d3 t) (d4 t)"
      using lagrange_closed_form [OF nz, where g = g and ?w1.0 = "w1 t" and ?w2.0 = "w2 t"]
        d [of t] by simp
  qed
  then have "?E t = ?E 0"
    using DERIV_isconst_all [of ?E t 0] by simp
  then show ?thesis
    by (simp only: DoublePendulum_getEnergy_finite [OF p(1-5)])
qed

section \<open>Stepping\<close>

lemma clearHistory_fields [simp]:
  "time (clearHistory s) = time s"
  "state (clearHistory s) = state s"
  "initialState (clearHistory s) = initialState s"
  "params (clearHistory s) = params s"
  "recordingEnabled (clearHistory s) = recordingEnabled s"
  "own (clearHistory s) = own s"
  "timeHistory (clearHistory s) = []"
  "positionHistory (clearHistory s) = []"
  "velocityHistory (clearHistory s) = []"
  "energyHistory (clearHistory s) = []"
  "phaseHistory (clearHistory s) = []"
  by (simp_all add: clearHistory_def)

lemma recordHistory_fields [simp]:
  "time (recordHistory C ph s) = time s"
  "state (recordHistory C ph s) = state s"
  "initialState (recordHistory C ph s) = initialState s"
  "params (recordHistory C ph s) = params s"
  "recordingEnabled (recordHistory C ph s) = recordingEnabled s"
  "own (recordHistory C ph s) = own s"
  by (simp_all add: recordHistory_def Let_def split: option.splits)

lemma recordHistory_disabled: "\<not> recordingEnabled s \<Longrightarrow> recordHistory C ph s = s"
  by (simp add: recordHistory_def)

text \<open>The integrator call of a step, and what it depends on.\<close>

lemma euler_fst:
  "fst (euler y t dt f M) = map (\<lambda>i. js_get y i + js_get (f t y) i * dt) [0..<length y]"
  by (simp add: euler_def Let_def take_for_set)

lemma euler_rk4_temp: "rk4_temp (snd (euler y t dt f M)) = rk4_temp M"
  by (simp add: euler_def Let_def)

lemma length_euler [simp]: "length (fst (euler y t dt f M)) = length y"
  by (simp add: euler_fst)

lemma step_fields [simp]:
  "initialState (fst (snd (step C dt w))) = initialState (fst w)"
  "params (fst (snd (step C dt w))) = params (fst w)"
  "recordingEnabled (fst (snd (step C dt w))) = recordingEnabled (fst w)"
  "own (fst (snd (step C dt w))) = own (fst w)"
  "time (fst (snd (step C dt w))) = time (fst w) + js_or (fixedTimestep (config C)) dt"
  by (simp_all add: step_def Let_def)

lemma step_state_length [simp]:
  "length (state (fst (snd (step C dt w)))) = length (state (fst w))"
  by (simp add: step_def Let_def split: IntegrationMethod.splits)

lemma init_at_start: "init cfg create p this = Some this' \<Longrightarrow> at_start this'"
  by (auto simp: init_def Let_def at_start_def split: option.splits)

lemma init_fields:
  assumes "init cfg create p this = Some this'"
  shows "recordingEnabled this' = recordingEnabled this"
    and "params this' = getDefaultParams cfg ++ p"
  using assms by (auto simp: init_def Let_def split: option.splits)

lemma SimplePendulum_init:
  "init SimplePendulum_config (createInitialState SimplePendulum) p this \<noteq> None"
  by (simp add: init_def Let_def SimplePendulum_def)

lemma SimplePendulum_returns:
  "init (config SimplePendulum) (createInitialState SimplePendulum) Map.empty new_SimplePendulum
   = Some (the (init (config SimplePendulum) (createInitialState SimplePendulum) Map.empty
        new_SimplePendulum))"
  using SimplePendulum_init [of Map.empty new_SimplePendulum]
  by (simp add: SimplePendulum_def)

lemma SimplePendulum_started:
  "time (the (init (config SimplePendulum) (createInitialState SimplePendulum) Map.empty
        new_SimplePendulum)) = 0"
  "recordingEnabled (the (init (config SimplePendulum) (createInitialState SimplePendulum)
        Map.empty new_SimplePendulum)) = False"
  "timeHistory (the (init (config SimplePendulum) (createInitialState SimplePendulum)
        Map.empty new_SimplePendulum)) = []"
  "phaseHistory (the (init (config SimplePendulum) (createInitialState SimplePendulum)
        Map.empty new_SimplePendulum)) = []"
proof -
  let ?i = "init (config SimplePendulum) (createInitialState SimplePendulum) Map.empty
    new_SimplePendulum"
  note i = SimplePendulum_returns
  show "time (the ?i) = 0" "timeHistory (the ?i) = []" "phaseHistory (the ?i) = []"
    using init_at_start [OF i] by (simp_all add: at_start_def)
  show "recordingEnabled (the ?i) = False"
    using init_fields(1) [OF i] by (simp add: new_SimplePendulum_def new_simulation_def)
qed

lemma js_or_truthy: "a \<noteq> 0 \<Longrightarrow> a \<noteq> NaN \<Longrightarrow> js_or a b = a"
  by (simp add: js_or_def)

lemma js_or_falsy: "a = 0 \<or> a = NaN \<Longrightarrow> js_or a b = b"
  by (auto simp: js_or_def)

lemma step_actualDt: "js_or (fixedTimestep (config C)) dt = js_or (fixedTimestep (config C)) dt'
  \<Longrightarrow> step C dt w = step C dt' w"
  by (simp add: step_def)

lemma SimplePendulum_actualDt:
  "js_or (fixedTimestep (config SimplePendulum)) dt = Fin (1 / 240)"
  by (simp add: SimplePendulum_def SimplePendulum_config_def js_or_def)

text \<open>
  C3: when the configured fixed time step is a number other than zero, \<open>step(dt)\<close>
  integrates with it and advances the time by it, whatever \<open>dt\<close> is; when it is
  zero (or NaN), none is configured and the caller's \<open>dt\<close> is used.
\<close>

theorem step_timestep:
  "(fixedTimestep (config C) \<noteq> 0 \<and> fixedTimestep (config C) \<noteq> NaN \<longrightarrow>
      time (fst (snd (step C dt w))) = time (fst w) + fixedTimestep (config C)
      \<and> state (fst (snd (step C dt w))) =
          fst (case integrationMethod (config C) of
                 Euler \<Rightarrow> euler (state (fst w)) (time (fst w)) (fixedTimestep (config C))
                            (computeDerivatives C (fst w)) (snd w)
               | _ \<Rightarrow> rk4 (state (fst w)) (time (fst w)) (fixedTimestep (config C))
                        (computeDerivatives C (fst w)) (snd w))
      \<and> step C dt w = step C dt' w)
   \<and> (fixedTimestep (config C) = 0 \<or> fixedTimestep (config C) = NaN \<longrightarrow>
      time (fst (snd (step C dt w))) = time (fst w) + dt
      \<and> state (fst (snd (step C dt w))) =
          fst (case integrationMethod (config C) of
                 Euler \<Rightarrow> euler (state (fst w)) (time (fst w)) dt
                            (computeDerivatives C (fst w)) (snd w)
               | _ \<Rightarrow> rk4 (state (fst w)) (time (fst w)) dt
                        (computeDerivatives C (fst w)) (snd w)))"
proof (intro conjI impI)
  assume a: "fixedTimestep (config C) \<noteq> 0 \<and> fixedTimestep (config C) \<noteq> NaN"
  then have j: "js_or (fixedTimestep (config C)) d = fixedTimestep (config C)" for d
    by (simp add: js_or_truthy)
  show "time (fst (snd (step C dt w))) = time (fst w) + fixedTimestep (config C)"
    by (simp add: j)
  show "state (fst (snd (step C dt w))) =
          fst (case integrationMethod (config C) of
                 Euler \<Rightarrow> euler (state (fst w)) (time (fst w)) (fixedTimestep (config C))
                            (computeDerivatives C (fst w)) (snd w)
               | _ \<Rightarrow> rk4 (state (fst w)) (time (fst w)) (fixedTimestep (config C))
                        (computeDerivatives C (fst w)) (snd w))"
    by (simp add: step_def Let_def j split: IntegrationMethod.splits)
  show "step C dt w = step C dt' w"
    by (rule step_actualDt) (simp add: j)
next
  assume a: "fixedTimestep (config C) = 0 \<or> fixedTimestep (config C) = NaN"
  then have j: "js_or (fixedTimestep (config C)) dt = dt"
    by (rule js_or_falsy)
  show "time (fst (snd (step C dt w))) = time (fst w) + dt"
    by (simp add: j)
  show "state (fst (snd (step C dt w))) =
          fst (case integrationMethod (config C) of
                 Euler \<Rightarrow> euler (state (fst w)) (time (fst w)) dt
                            (computeDerivatives C (fst w)) (snd w)
               | _ \<Rightarrow> rk4 (state (fst w)) (time (fst w)) dt
                        (computeDerivatives C (fst w)) (snd w))"
    by (simp add: step_def Let_def j split: IntegrationMethod.splits)
qed

theorem step_timestep_witness:
  "fixedTimestep (config SimplePendulum) \<noteq> 0
   \<and> fixedTimestep (config SimplePendulum) \<noteq> NaN
   \<and> time (fst (snd (step SimplePendulum 7
        (the (init (config SimplePendulum) (createInitialState SimplePendulum) Map.empty
           new_SimplePendulum), physics_module_init))))
      = Fin (1 / 240)
   \<and> step SimplePendulum 7
        (the (init (config SimplePendulum) (createInitialState SimplePendulum) Map.empty
           new_SimplePendulum), physics_module_init)
      = step SimplePendulum 1
        (the (init (config SimplePendulum) (createInitialState SimplePendulum) Map.empty
           new_SimplePendulum), physics_module_init)
   \<and> fixedTimestep (config (SimplePendulum\<lparr>config := SimplePendulum_config\<lparr>fixedTimestep := 0\<rparr>\<rparr>)) = 0
   \<and> time (fst (snd (step (SimplePendulum\<lparr>config := SimplePendulum_config\<lparr>fixedTimestep := 0\<rparr>\<rparr>) 7
        (the (init (config SimplePendulum) (createInitialState SimplePendulum) Map.empty
           new_SimplePendulum), physics_module_init)))) = 7"
proof -
  let ?begin = "(the (init (config SimplePendulum) (createInitialState SimplePendulum) Map.empty
           new_SimplePendulum), physics_module_init)"
  let ?C0 = "SimplePendulum\<lparr>config := SimplePendulum_config\<lparr>fixedTimestep := 0\<rparr>\<rparr>"
  have f: "fixedTimestep (config SimplePendulum) = Fin (1 / 240)"
    by (simp add: SimplePendulum_def SimplePendulum_config_def)
  have t: "time (fst ?begin) = 0"
    by (simp add: SimplePendulum_started)
  have f0: "fixedTimestep (config ?C0) = 0"
    by simp
  show ?thesis
    using step_timestep [of SimplePendulum 7 ?begin 1] step_timestep [of ?C0 7 ?begin 1] f t f0
    by (simp add: js_or_def)
qed

text \<open>
  C7: recording is off in a new object, and while it is off a step leaves the five
  history buffers as they are: of the object it changes the state vector and the time
  only.
\<close>

theorem step_without_recording:
  "recordingEnabled (new_simulation own0) = False
   \<and> (\<not> recordingEnabled (fst w) \<longrightarrow>
        timeHistory (fst (snd (step C dt w))) = timeHistory (fst w)
      \<and> positionHistory (fst (snd (step C dt w))) = positionHistory (fst w)
      \<and> velocityHistory (fst (snd (step C dt w))) = velocityHistory (fst w)
      \<and> energyHistory (fst (snd (step C dt w))) = energyHistory (fst w)
      \<and> phaseHistory (fst (snd (step C dt w))) = phaseHistory (fst w)
      \<and> initialState (fst (snd (step C dt w))) = initialState (fst w)
      \<and> params (fst (snd (step C dt w))) = params (fst w)
      \<and> recordingEnabled (fst (snd (step C dt w))) = recordingEnabled (fst w))"
proof (intro conjI impI)
  show "recordingEnabled (new_simulation own0) = False"
    by (simp add: new_simulation_def)
next
  assume off: "\<not> recordingEnabled (fst w)"
  define integrated where "integrated =
    (fst w)\<lparr>state := state (fst (snd (step C dt w))), time := time (fst (snd (step C dt w)))\<rparr>"
  have "\<not> recordingEnabled integrated"
    using off by (simp add: integrated_def)
  then have "recordHistory C (fst (step C dt w)) integrated = integrated"
    by (rule recordHistory_disabled)
  moreover have "fst (snd (step C dt w)) = recordHistory C (fst (step C dt w)) integrated"
    unfolding integrated_def by (simp add: step_def Let_def)
  ultimately have s: "fst (snd (step C dt w)) = integrated"
    by simp
  show "timeHistory (fst (snd (step C dt w))) = timeHistory (fst w)"
    and "positionHistory (fst (snd (step C dt w))) = positionHistory (fst w)"
    and "velocityHistory (fst (snd (step C dt w))) = velocityHistory (fst w)"
    and "energyHistory (fst (snd (step C dt w))) = energyHistory (fst w)"
    and "phaseHistory (fst (snd (step C dt w))) = phaseHistory (fst w)"
    by (subst s, simp add: integrated_def)+
  show "initialState (fst (snd (step C dt w))) = initialState (fst w)"
    and "params (fst (snd (step C dt w))) = params (fst w)"
    and "recordingEnabled (fst (snd (step C dt w))) = recordingEnabled (fst w)"
    by simp_all
qed

theorem step_without_recording_witness:
  "\<not> recordingEnabled (fst
        (the (init (config SimplePendulum) (createInitialState SimplePendulum) Map.empty
           new_SimplePendulum), physics_module_init))
   \<and> timeHistory (fst (snd (step SimplePendulum 1
        (the (init (config SimplePendulum) (createInitialState SimplePendulum) Map.empty
           new_SimplePendulum), physics_module_init)))) = []
   \<and> phaseHistory (fst (snd (step SimplePendulum 1
        (the (init (config SimplePendulum) (createInitialState SimplePendulum) Map.empty
           new_SimplePendulum), physics_module_init)))) = []
   \<and> time (fst (snd (step SimplePendulum 1
        (the (init (config SimplePendulum) (createInitialState SimplePendulum) Map.empty
           new_SimplePendulum), physics_module_init)))) = Fin (1 / 240)"
  using step_without_recording [where w = "(the (init (config SimplePendulum)
        (createInitialState SimplePendulum) Map.empty new_SimplePendulum), physics_module_init)"
      and C = SimplePendulum and dt = 1, THEN conjunct2]
  by (simp add: SimplePendulum_started SimplePendulum_actualDt)

section \<open>Reset and replay\<close>

lemma step_temp_tail:
  "drop (length (state (fst w))) (rk4_temp (snd (snd (step C dt w))))
   = drop (length (state (fst w))) (rk4_temp (snd w))"
  by (simp add: step_def Let_def euler_rk4_temp rk4_temp_tail split: IntegrationMethod.splits)

lemma step_cong_module:
  assumes "drop (length (state this)) (rk4_temp M) = drop (length (state this)) (rk4_temp M')"
  shows "fst (step C dt (this, M)) = fst (step C dt (this, M'))"
    and "fst (snd (step C dt (this, M))) = fst (snd (step C dt (this, M')))"
  using assms
  by (simp_all add: step_def Let_def euler_fst rk4_fst split: IntegrationMethod.splits)

lemma run_steps_cong_module:
  assumes "drop (length (state this)) (rk4_temp M) = drop (length (state this)) (rk4_temp M')"
  shows "fst (run_steps C dts (this, M)) = fst (run_steps C dts (this, M'))"
  using assms
proof (induction dts arbitrary: this M M')
  case Nil
  show ?case by simp
next
  case (Cons dt dts)
  let ?r = "step C dt (this, M)" and ?r' = "step C dt (this, M')"
  have p: "fst ?r = fst ?r'" and s: "fst (snd ?r) = fst (snd ?r')"
    using Cons.prems by (rule step_cong_module)+
  have "drop (length (state this)) (rk4_temp (snd (snd ?r)))
      = drop (length (state this)) (rk4_temp (snd (snd ?r')))"
    using step_temp_tail [of "(this, M)" C dt] step_temp_tail [of "(this, M')" C dt] Cons.prems
    by simp
  then have "fst (run_steps C dts (fst (snd ?r), snd (snd ?r)))
      = fst (run_steps C dts (fst (snd ?r), snd (snd ?r')))"
    by (intro Cons.IH) simp
  then show ?case
    using p s by (simp add: Let_def) (metis prod.collapse)
qed

lemma run_steps_fields [simp]:
  "initialState (fst (snd (run_steps C dts w))) = initialState (fst w)"
  "params (fst (snd (run_steps C dts w))) = params (fst w)"
  "recordingEnabled (fst (snd (run_steps C dts w))) = recordingEnabled (fst w)"
  "own (fst (snd (run_steps C dts w))) = own (fst w)"
  "length (state (fst (snd (run_steps C dts w)))) = length (state (fst w))"
  by (induction dts arbitrary: w; simp add: Let_def)+

lemma run_steps_temp_tail:
  "drop (length (state (fst w))) (rk4_temp (snd (snd (run_steps C dts w))))
   = drop (length (state (fst w))) (rk4_temp (snd w))"
proof (induction dts arbitrary: w)
  case Nil
  show ?case by simp
next
  case (Cons dt dts)
  show ?case
    using Cons.IH [of "snd (step C dt w)"] step_temp_tail [of w C dt]
    by (simp add: Let_def)
qed

lemma reset_restores:
  assumes "at_start this"
  shows "reset (fst (snd (run_steps C dts (this, M)))) = this"
  using assms
  by (intro BaseSimulation.equality) (simp_all add: reset_def at_start_def)

text \<open>
  C5: after \<open>init(p)\<close>, stepping through any list of time steps and then \<open>reset()\<close>
  gives back the object as \<open>init\<close> left it (the state vector snapshotted there, time
  zero, empty history), and stepping through the same list again gives the same sequence
  of physics states as the first run. The scratch arrays of the integrator module are
  not restored, and do not matter.
\<close>

theorem reset_replays:
  "init (config C) (createInitialState C) p this0 = Some this1 \<longrightarrow>
   reset (fst (snd (run_steps C dts (this1, M)))) = this1
   \<and> fst (run_steps C dts (reset (fst (snd (run_steps C dts (this1, M)))),
                          snd (snd (run_steps C dts (this1, M)))))
     = fst (run_steps C dts (this1, M))"
proof
  assume "init (config C) (createInitialState C) p this0 = Some this1"
  then have "at_start this1" by (rule init_at_start)
  then have r: "reset (fst (snd (run_steps C dts (this1, M)))) = this1"
    by (rule reset_restores)
  have "drop (length (state this1)) (rk4_temp (snd (snd (run_steps C dts (this1, M)))))
      = drop (length (state this1)) (rk4_temp M)"
    using run_steps_temp_tail [of "(this1, M)" C dts] by simp
  then have "fst (run_steps C dts (this1, snd (snd (run_steps C dts (this1, M)))))
      = fst (run_steps C dts (this1, M))"
    by (rule run_steps_cong_module)
  with r show "reset (fst (snd (run_steps C dts (this1, M)))) = this1
   \<and> fst (run_steps C dts (reset (fst (snd (run_steps C dts (this1, M)))),
                          snd (snd (run_steps C dts (this1, M)))))
     = fst (run_steps C dts (this1, M))"
    by simp
qed

lemma SimplePendulum_phys_time:
  "phys_time (fst (step SimplePendulum dt w)) = time (fst w) + Fin (1 / 240)"
  by (simp add: step_def Let_def SimplePendulum_def SimplePendulum_stateToPhysics_def
      SimplePendulum_config_def js_or_def)

theorem reset_replays_witness:
  "init (config SimplePendulum) (createInitialState SimplePendulum) Map.empty new_SimplePendulum
     = Some (the (init (config SimplePendulum) (createInitialState SimplePendulum) Map.empty
          new_SimplePendulum))
   \<and> fst (run_steps SimplePendulum [1, 1]
        (reset (fst (snd (run_steps SimplePendulum [1, 1]
           (the (init (config SimplePendulum) (createInitialState SimplePendulum) Map.empty
              new_SimplePendulum), physics_module_init)))),
         snd (snd (run_steps SimplePendulum [1, 1]
           (the (init (config SimplePendulum) (createInitialState SimplePendulum) Map.empty
              new_SimplePendulum), physics_module_init)))))
     = fst (run_steps SimplePendulum [1, 1]
        (the (init (config SimplePendulum) (createInitialState SimplePendulum) Map.empty
           new_SimplePendulum), physics_module_init))
   \<and> map phys_time (fst (run_steps SimplePendulum [1, 1]
        (the (init (config SimplePendulum) (createInitialState SimplePendulum) Map.empty
           new_SimplePendulum), physics_module_init)))
     = [Fin (1 / 240), Fin (2 / 240)]"
proof -
  let ?i = "init (config SimplePendulum) (createInitialState SimplePendulum) Map.empty
    new_SimplePendulum"
  have i: "?i = Some (the ?i)"
    by (rule SimplePendulum_returns)
  have t: "time (the ?i) = 0"
    by (rule SimplePendulum_started)
  have "map phys_time (fst (run_steps SimplePendulum [1, 1] (the ?i, physics_module_init)))
     = [Fin (1 / 240), Fin (2 / 240)]"
    by (simp add: Let_def SimplePendulum_phys_time SimplePendulum_actualDt t)
  with i reset_replays [of SimplePendulum Map.empty new_SimplePendulum "the ?i" "[1, 1]"
      physics_module_init]
  show ?thesis by blast
qed

section \<open>Recording\<close>

text \<open>What recording appends, and what it keeps of the old samples.\<close>

lemma recordHistory_enabled:
  assumes "recordingEnabled s"
  shows "timeHistory (recordHistory C ph s)
      = drop (length (timeHistory s) - (if maxHistoryLength \<le> length (timeHistory s) then 9000 else length (timeHistory s)))
          (timeHistory s) @ [phys_time ph]"
    and "positionHistory (recordHistory C ph s)
      = drop (length (positionHistory s) - (if maxHistoryLength \<le> length (timeHistory s) then 9000 else length (positionHistory s)))
          (positionHistory s) @ [positions ph]"
    and "velocityHistory (recordHistory C ph s)
      = drop (length (velocityHistory s) - (if maxHistoryLength \<le> length (timeHistory s) then 9000 else length (velocityHistory s)))
          (velocityHistory s) @ [velocities ph]"
    and "butlast (energyHistory (recordHistory C ph s))
      = drop (length (energyHistory s) - (if maxHistoryLength \<le> length (timeHistory s) then 9000 else length (energyHistory s)))
          (energyHistory s)"
    and "length (energyHistory (recordHistory C ph s))
      = Suc (length (drop (length (energyHistory s) - (if maxHistoryLength \<le> length (timeHistory s) then 9000 else length (energyHistory s)))
          (energyHistory s)))"
  using assms
  by (simp_all add: recordHistory_def Let_def js_slice_from_neg maxHistoryLength_def
      split: option.splits)

lemma recordHistory_aligned:
  assumes "history_aligned s"
  shows "history_aligned (recordHistory C ph s)"
proof (cases "recordingEnabled s")
  case False
  with assms show ?thesis by (simp add: recordHistory_disabled)
next
  case True
  note r = recordHistory_enabled [OF True, of C ph]
  from assms show ?thesis
    unfolding history_aligned_def r(1,2,3,5)
    by (auto simp: maxHistoryLength_def)
qed

lemma history_aligned_update [simp]:
  "history_aligned (s\<lparr>state := a\<rparr>) = history_aligned s"
  "history_aligned (s\<lparr>time := b\<rparr>) = history_aligned s"
  "history_aligned (s\<lparr>params := c\<rparr>) = history_aligned s"
  "history_aligned (s\<lparr>recordingEnabled := d\<rparr>) = history_aligned s"
  "history_aligned (clearHistory s)"
  by (simp_all add: history_aligned_def)

lemma step_records:
  "fst (snd (step C dt w))
   = recordHistory C (fst (step C dt w))
       ((fst w)\<lparr>state := state (fst (snd (step C dt w))),
                 time := time (fst (snd (step C dt w)))\<rparr>)"
  by (simp add: step_def Let_def)

lemma step_aligned: "history_aligned (fst w) \<Longrightarrow> history_aligned (fst (snd (step C dt w)))"
  by (subst step_records) (simp add: recordHistory_aligned)

lemma exec_aligned:
  assumes "history_aligned (fst w)" "exec C c w = Some w'"
  shows "history_aligned (fst w')"
proof (cases c)
  case (Init p)
  with assms(2) obtain this' where "init (config C) (createInitialState C) p (fst w) = Some this'"
    and "w' = (this', snd w)" by auto
  then show ?thesis
    by (auto simp: init_def Let_def split: option.splits)
next
  case (Step dt)
  with assms show ?thesis by (auto simp: step_aligned)
next
  case Reset
  with assms show ?thesis by (auto simp: reset_def)
next
  case (EnableRecording b)
  with assms show ?thesis by (auto simp: enableRecording_def Let_def)
next
  case (SetParams p)
  with assms show ?thesis by (auto simp: setParams_def)
qed (use assms in auto)

text \<open>
  C8: the time, position, velocity and energy buffers have one length, at most 10000.
  This holds of a new object and every public call keeps it. While recording, a step
  appends one sample to each buffer; when the buffers have reached the maximum it first
  drops the oldest samples of each, down to 9000, so that 9001 remain.
\<close>

theorem history_invariant:
  "history_aligned (new_simulation own_init)
   \<and> (history_aligned (fst w) \<and> exec C c w = Some w' \<longrightarrow> history_aligned (fst w'))
   \<and> (history_aligned this \<and> recordingEnabled this \<longrightarrow>
        (let this' = fst (snd (step C dt (this, M)));
             physics = fst (step C dt (this, M));
             old = length (timeHistory this);
             keep = (if maxHistoryLength \<le> old then 9000 else old)
         in keep < maxHistoryLength
            \<and> timeHistory this' = drop (old - keep) (timeHistory this) @ [phys_time physics]
            \<and> positionHistory this'
                = drop (old - keep) (positionHistory this) @ [positions physics]
            \<and> velocityHistory this'
                = drop (old - keep) (velocityHistory this) @ [velocities physics]
            \<and> butlast (energyHistory this') = drop (old - keep) (energyHistory this)
            \<and> length (energyHistory this') = keep + 1))"
proof (intro conjI impI)
  show "history_aligned (new_simulation own_init)"
    by (simp add: history_aligned_def new_simulation_def)
  show "history_aligned (fst w')" if "history_aligned (fst w) \<and> exec C c w = Some w'"
    using that exec_aligned by blast
  assume a: "history_aligned this \<and> recordingEnabled this"
  define st where "st = state (fst (snd (step C dt (this, M))))"
  define tm where "tm = time (fst (snd (step C dt (this, M))))"
  define physics where "physics = fst (step C dt (this, M))"
  let ?s = "this\<lparr>state := st, time := tm\<rparr>"
  have e: "recordingEnabled ?s" using a by simp
  note r = recordHistory_enabled [OF e, of C physics]
  have s: "fst (snd (step C dt (this, M))) = recordHistory C physics ?s"
    using step_records [of C dt "(this, M)"] by (simp add: st_def tm_def physics_def)
  from a show "let this' = fst (snd (step C dt (this, M)));
             physics = fst (step C dt (this, M));
             old = length (timeHistory this);
             keep = (if maxHistoryLength \<le> old then 9000 else old)
         in keep < maxHistoryLength
            \<and> timeHistory this' = drop (old - keep) (timeHistory this) @ [phys_time physics]
            \<and> positionHistory this'
                = drop (old - keep) (positionHistory this) @ [positions physics]
            \<and> velocityHistory this'
                = drop (old - keep) (velocityHistory this) @ [velocities physics]
            \<and> butlast (energyHistory this') = drop (old - keep) (energyHistory this)
            \<and> length (energyHistory this') = keep + 1"
    unfolding Let_def s r physics_def [symmetric]
    by (auto simp: history_aligned_def maxHistoryLength_def)
qed

theorem history_invariant_witness:
  "history_aligned
     (new_SimplePendulum\<lparr>recordingEnabled := True, timeHistory := replicate 10000 0,
        positionHistory := replicate 10000 [], velocityHistory := replicate 10000 [],
        energyHistory := replicate 10000 \<lparr>kinetic = 0, potential = 0, total = 0\<rparr>\<rparr>)
   \<and> recordingEnabled
     (new_SimplePendulum\<lparr>recordingEnabled := True, timeHistory := replicate 10000 0,
        positionHistory := replicate 10000 [], velocityHistory := replicate 10000 [],
        energyHistory := replicate 10000 \<lparr>kinetic = 0, potential = 0, total = 0\<rparr>\<rparr>)
   \<and> length (timeHistory (fst (snd (step SimplePendulum 1
       (new_SimplePendulum\<lparr>recordingEnabled := True, timeHistory := replicate 10000 0,
          positionHistory := replicate 10000 [], velocityHistory := replicate 10000 [],
          energyHistory := replicate 10000 \<lparr>kinetic = 0, potential = 0, total = 0\<rparr>\<rparr>,
        physics_module_init))))) = 9001
   \<and> length (energyHistory (fst (snd (step SimplePendulum 1
       (new_SimplePendulum\<lparr>recordingEnabled := True, timeHistory := replicate 10000 0,
          positionHistory := replicate 10000 [], velocityHistory := replicate 10000 [],
          energyHistory := replicate 10000 \<lparr>kinetic = 0, potential = 0, total = 0\<rparr>\<rparr>,
        physics_module_init))))) = 9001
   \<and> exec SimplePendulum (EnableRecording True) (new_SimplePendulum, physics_module_init)
       = Some (enableRecording True new_SimplePendulum, physics_module_init)
   \<and> history_aligned (enableRecording True new_SimplePendulum)"
proof -
  let ?full = "new_SimplePendulum\<lparr>recordingEnabled := True, timeHistory := replicate 10000 0,
        positionHistory := replicate 10000 [], velocityHistory := replicate 10000 [],
        energyHistory := replicate 10000 \<lparr>kinetic = 0, potential = 0, total = 0\<rparr>\<rparr>"
  have a: "history_aligned ?full" "recordingEnabled ?full"
    by (simp_all add: history_aligned_def maxHistoryLength_def)
  have l: "length (timeHistory ?full) = 10000"
    by simp
  have n: "history_aligned (fst (new_SimplePendulum, physics_module_init))"
    using history_invariant [where own_init = "[0, 0] :: number list", THEN conjunct1]
    by (simp add: new_SimplePendulum_def)
  have e: "exec SimplePendulum (EnableRecording True) (new_SimplePendulum, physics_module_init)
       = Some (enableRecording True new_SimplePendulum, physics_module_init)"
    by simp
  have "history_aligned (enableRecording True new_SimplePendulum)"
    using history_invariant [where w = "(new_SimplePendulum, physics_module_init)"
        and C = SimplePendulum and c = "EnableRecording True"
        and w' = "(enableRecording True new_SimplePendulum, physics_module_init)",
        THEN conjunct2, THEN conjunct1] n e
    by simp
  moreover have "length (timeHistory (fst (snd (step SimplePendulum 1 (?full, physics_module_init))))) = 9001
    \<and> length (energyHistory (fst (snd (step SimplePendulum 1 (?full, physics_module_init))))) = 9001"
    using history_invariant [where this = ?full and C = SimplePendulum and dt = 1
        and M = physics_module_init, THEN conjunct2, THEN conjunct2] a
    unfolding Let_def l by (simp add: maxHistoryLength_def)
  ultimately show ?thesis using a e by blast
qed

section \<open>Parameters\<close>

text \<open>
  C9, as stated: no public operation but \<open>init\<close> changes the parameters. The public
  method \<open>setParams\<close> does: after \<open>init({})\<close> the length is the default 2, and after
  \<open>setParams({length: 5})\<close> it is 5, with no initialisation in between.
\<close>

theorem setParams_counterexample:
  "Option.bind (exec_all SimplePendulum [Init Map.empty]
       (new_SimplePendulum, physics_module_init)) (\<lambda>w. params (fst w) ''length'') = Some 2
   \<and> Option.bind (exec_all SimplePendulum [Init Map.empty, SetParams [''length'' \<mapsto> 5]]
       (new_SimplePendulum, physics_module_init)) (\<lambda>w. params (fst w) ''length'') = Some 5"
  by (simp add: init_def Let_def SimplePendulum_def SimplePendulum_config_def getDefaultParams_def
      setParams_def)

lemma exec_params:
  assumes "exec C c w = Some w'" "\<forall>p. c \<noteq> Init p" "\<forall>p. c \<noteq> SetParams p"
  shows "params (fst w') = params (fst w)"
  using assms by (cases c) (auto simp: reset_def enableRecording_def Let_def)

lemma exec_all_params:
  assumes "exec_all C cs w = Some w'" "\<forall>c\<in>set cs. (\<forall>p. c \<noteq> Init p) \<and> (\<forall>p. c \<noteq> SetParams p)"
  shows "params (fst w') = params (fst w)"
  using assms
proof (induction cs arbitrary: w)
  case Nil
  then show ?case by simp
next
  case (Cons c cs)
  from Cons.prems(1) obtain w1 where 1: "exec C c w = Some w1" and 2: "exec_all C cs w1 = Some w'"
    by (auto simp: bind_eq_Some_conv)
  have "params (fst w1) = params (fst w)"
    using 1 Cons.prems(2) by (intro exec_params [of C c]) auto
  moreover have "params (fst w') = params (fst w1)"
    using 2 Cons.prems(2) by (intro Cons.IH) auto
  ultimately show ?case by simp
qed

text \<open>
  C9, amended: \<open>step\<close>, \<open>reset\<close>, \<open>getEnergy\<close>, \<open>getPhaseSpace\<close>,
  \<open>enableRecording\<close>, \<open>export\<close>, \<open>getTime\<close> and \<open>getParams\<close> leave the
  parameters as they are, one call or many. Two public operations change them:
  \<open>init\<close> sets them to the defaults overridden by its argument, and \<open>setParams\<close>
  merges its argument into them without initialising anything.
\<close>

theorem params_changed_by:
  "(exec C c w = Some w' \<and> (\<forall>p. c \<noteq> Init p) \<and> (\<forall>p. c \<noteq> SetParams p)
      \<longrightarrow> params (fst w') = params (fst w))
   \<and> (exec_all C cs w = Some w'
        \<and> (\<forall>c\<in>set cs. (\<forall>p. c \<noteq> Init p) \<and> (\<forall>p. c \<noteq> SetParams p))
      \<longrightarrow> params (fst w') = params (fst w))
   \<and> (exec C (Init p) w = Some w' \<longrightarrow> params (fst w') = getDefaultParams (config C) ++ p)
   \<and> (exec C (SetParams p) w = Some w' \<longrightarrow> params (fst w') = params (fst w) ++ p)"
  using exec_params [of C c w w'] exec_all_params [of C cs w w']
  by (auto simp: init_fields setParams_def)

theorem params_changed_by_witness:
  "exec_all SimplePendulum
     [Step 1, GetEnergy, GetPhaseSpace, EnableRecording True, Step 1, Export, Reset]
     (new_SimplePendulum\<lparr>params := getDefaultParams SimplePendulum_config\<rparr>, physics_module_init)
   = Some (the (exec_all SimplePendulum
     [Step 1, GetEnergy, GetPhaseSpace, EnableRecording True, Step 1, Export, Reset]
     (new_SimplePendulum\<lparr>params := getDefaultParams SimplePendulum_config\<rparr>, physics_module_init)))
   \<and> params (fst (the (exec_all SimplePendulum
     [Step 1, GetEnergy, GetPhaseSpace, EnableRecording True, Step 1, Export, Reset]
     (new_SimplePendulum\<lparr>params := getDefaultParams SimplePendulum_config\<rparr>, physics_module_init))))
     = getDefaultParams SimplePendulum_config
   \<and> exec SimplePendulum (SetParams [''length'' \<mapsto> 5]) (new_SimplePendulum, physics_module_init)
     = Some (setParams [''length'' \<mapsto> 5] new_SimplePendulum, physics_module_init)
   \<and> params (setParams [''length'' \<mapsto> 5] new_SimplePendulum)
     = params new_SimplePendulum ++ [''length'' \<mapsto> 5]"
proof -
  let ?cs = "[Step 1, GetEnergy, GetPhaseSpace, EnableRecording True, Step 1, Export, Reset]"
  let ?begin = "(new_SimplePendulum\<lparr>params := getDefaultParams SimplePendulum_config\<rparr>,
    physics_module_init)"
  let ?fresh = "(new_SimplePendulum, physics_module_init)"
  have 1: "exec_all SimplePendulum ?cs ?begin = Some (the (exec_all SimplePendulum ?cs ?begin))"
    by simp
  have 2: "\<forall>c\<in>set ?cs. (\<forall>p. c \<noteq> Init p) \<and> (\<forall>p. c \<noteq> SetParams p)"
    by simp
  have 3: "exec SimplePendulum (SetParams [''length'' \<mapsto> 5]) ?fresh
     = Some (setParams [''length'' \<mapsto> 5] new_SimplePendulum, physics_module_init)"
    by simp
  have "params (fst (the (exec_all SimplePendulum ?cs ?begin))) = params (fst ?begin)"
    using params_changed_by [where C = SimplePendulum and cs = ?cs and w = ?begin
        and w' = "the (exec_all SimplePendulum ?cs ?begin)", THEN conjunct2, THEN conjunct1] 1 2
    by blast
  moreover have "params (setParams [''length'' \<mapsto> 5] new_SimplePendulum)
     = params new_SimplePendulum ++ [''length'' \<mapsto> 5]"
    using params_changed_by [where C = SimplePendulum and p = "[''length'' \<mapsto> 5]" and w = ?fresh
        and w' = "(setParams [''length'' \<mapsto> 5] new_SimplePendulum, physics_module_init)",
        THEN conjunct2, THEN conjunct2, THEN conjunct2] 3
    by simp
  ultimately show ?thesis using 1 3 by simp
qed

section \<open>The chain of pendulums\<close>









section \<open>normalizeAngle\<close>

lemma normalize_down_finite:
  "\<exists>k :: nat. normalize_down (Fin x) = Some (Fin (x - 2 * pi * real k))
     \<and> x - 2 * pi * real k \<le> pi
     \<and> (pi < x \<longrightarrow> - pi < x - 2 * pi * real k)
     \<and> (x \<le> pi \<longrightarrow> k = 0)"
proof (induction "nat \<lceil>(x - pi) / (2 * pi)\<rceil>" arbitrary: x)
  case 0
  then have "(x - pi) / (2 * pi) \<le> 0"
    by (simp add: ceiling_le_zero)
  then have le: "x \<le> pi"
    by (simp add: field_simps)
  then have "normalize_down (Fin x) = Some (Fin x)"
    by (subst normalize_down.simps) (simp add: Math_PI_def)
  with le show ?case by (intro exI [of _ 0]) simp
next
  case (Suc d)
  then have "0 < (x - pi) / (2 * pi)"
    by (metis ceiling_le_zero nat_le_0 not_le Zero_not_Suc nat_eq_iff2)
  then have gt: "pi < x"
    by (simp add: field_simps)
  have "(x - 2 * pi - pi) / (2 * pi) = (x - pi) / (2 * pi) - 1"
    by (simp add: field_simps)
  then have "nat \<lceil>(x - 2 * pi - pi) / (2 * pi)\<rceil> = nat (\<lceil>(x - pi) / (2 * pi)\<rceil> - 1)"
    by simp
  also have "\<dots> = d"
    using Suc.hyps(2) by simp
  finally have "d = nat \<lceil>(x - 2 * pi - pi) / (2 * pi)\<rceil>" by simp
  from Suc.hyps(1) [OF this] obtain k :: nat where
    k: "normalize_down (Fin (x - 2 * pi)) = Some (Fin (x - 2 * pi - 2 * pi * real k))"
       "x - 2 * pi - 2 * pi * real k \<le> pi"
       "pi < x - 2 * pi \<longrightarrow> - pi < x - 2 * pi - 2 * pi * real k"
       "x - 2 * pi \<le> pi \<longrightarrow> k = 0"
    by blast
  have e: "x - 2 * pi * real (Suc k) = x - 2 * pi - 2 * pi * real k"
    by (simp add: algebra_simps)
  have "normalize_down (Fin x) = normalize_down (Fin (x - 2 * pi))"
    using gt by (subst normalize_down.simps) (simp add: Math_PI_def)
  then have "normalize_down (Fin x) = Some (Fin (x - 2 * pi * real (Suc k)))"
    unfolding e using k(1) by simp
  moreover have "- pi < x - 2 * pi * real (Suc k)"
    unfolding e using k(3,4) gt by (cases "pi < x - 2 * pi") auto
  ultimately show ?case
    using k(2) gt unfolding e [symmetric] by (intro exI [of _ "Suc k"]) simp
qed

lemma normalize_up_finite:
  "\<exists>k :: nat. normalize_up (Fin x) = Some (Fin (x + 2 * pi * real k))
     \<and> - pi \<le> x + 2 * pi * real k
     \<and> (x < - pi \<longrightarrow> x + 2 * pi * real k < pi)
     \<and> (- pi \<le> x \<longrightarrow> k = 0)"
proof (induction "nat \<lceil>(- pi - x) / (2 * pi)\<rceil>" arbitrary: x)
  case 0
  then have "(- pi - x) / (2 * pi) \<le> 0"
    by (simp add: ceiling_le_zero)
  then have le: "- pi \<le> x"
    by (simp add: field_simps)
  then have "normalize_up (Fin x) = Some (Fin x)"
    by (subst normalize_up.simps) (simp add: Math_PI_def)
  with le show ?case by (intro exI [of _ 0]) simp
next
  case (Suc d)
  then have "0 < (- pi - x) / (2 * pi)"
    by (metis ceiling_le_zero nat_le_0 not_le Zero_not_Suc nat_eq_iff2)
  then have lt: "x < - pi"
    by (simp add: field_simps)
  have "(- pi - (x + 2 * pi)) / (2 * pi) = (- pi - x) / (2 * pi) - 1"
    by (simp add: field_simps)
  then have "nat \<lceil>(- pi - (x + 2 * pi)) / (2 * pi)\<rceil> = nat (\<lceil>(- pi - x) / (2 * pi)\<rceil> - 1)"
    by simp
  also have "\<dots> = d"
    using Suc.hyps(2) by simp
  finally have "d = nat \<lceil>(- pi - (x + 2 * pi)) / (2 * pi)\<rceil>" by simp
  from Suc.hyps(1) [OF this] obtain k :: nat where
    k: "normalize_up (Fin (x + 2 * pi)) = Some (Fin (x + 2 * pi + 2 * pi * real k))"
       "- pi \<le> x + 2 * pi + 2 * pi * real k"
       "x + 2 * pi < - pi \<longrightarrow> x + 2 * pi + 2 * pi * real k < pi"
       "- pi \<le> x + 2 * pi \<longrightarrow> k = 0"
    by blast
  have e: "x + 2 * pi * real (Suc k) = x + 2 * pi + 2 * pi * real k"
    by (simp add: algebra_simps)
  have "normalize_up (Fin x) = normalize_up (Fin (x + 2 * pi))"
    using lt by (subst normalize_up.simps) (simp add: Math_PI_def)
  then have "normalize_up (Fin x) = Some (Fin (x + 2 * pi * real (Suc k)))"
    unfolding e using k(1) by simp
  moreover have "x + 2 * pi * real (Suc k) < pi"
    unfolding e using k(3,4) lt by (cases "x + 2 * pi < - pi") auto
  ultimately show ?case
    using k(2) lt unfolding e [symmetric] by (intro exI [of _ "Suc k"]) simp
qed

lemma infinite_steps:
  "Fin c < PInf" "PInf - Fin c = PInf"
  "NInf < Fin c" "NInf + Fin c = NInf"
  "\<not> Fin c < NInf" "\<not> Fin c < NaN" "\<not> NaN < Fin c"
  by (simp_all add: less_number_def minus_number_def plus_number_def)

lemma normalize_down_PInf: "normalize_down PInf = None"
proof -
  have "a \<noteq> PInf" if "normalize_down a = Some y" for a y
  proof (rule normalize_down.raw_induct [where P = "\<lambda>a y. a \<noteq> PInf", OF _ that])
    fix f :: "number \<Rightarrow> number option" and angle r
    assume ih: "\<And>x y. f x = Some y \<Longrightarrow> x \<noteq> PInf"
      and eq: "(if Math_PI < angle then f (angle - 2 * Math_PI) else Some angle) = Some r"
    show "angle \<noteq> PInf"
    proof
      assume "angle = PInf"
      with eq have "f PInf = Some r" by (simp add: Math_PI_def infinite_steps)
      with ih show False by blast
    qed
  qed
  then show ?thesis by (cases "normalize_down PInf") auto
qed

lemma normalize_up_NInf: "normalize_up NInf = None"
proof -
  have "a \<noteq> NInf" if "normalize_up a = Some y" for a y
  proof (rule normalize_up.raw_induct [where P = "\<lambda>a y. a \<noteq> NInf", OF _ that])
    fix f :: "number \<Rightarrow> number option" and angle r
    assume ih: "\<And>x y. f x = Some y \<Longrightarrow> x \<noteq> NInf"
      and eq: "(if angle < - Math_PI then f (angle + 2 * Math_PI) else Some angle) = Some r"
    show "angle \<noteq> NInf"
    proof
      assume "angle = NInf"
      with eq have "f NInf = Some r" by (simp add: Math_PI_def infinite_steps)
      with ih show False by blast
    qed
  qed
  then show ?thesis by (cases "normalize_up NInf") auto
qed

lemma normalizeAngle_infinite:
  "normalizeAngle PInf = None" "normalizeAngle NInf = None" "normalizeAngle NaN = Some NaN"
proof -
  show "normalizeAngle PInf = None"
    by (simp add: normalizeAngle_def normalize_down_PInf)
  have "normalize_down NInf = Some NInf"
    by (subst normalize_down.simps) (simp add: Math_PI_def infinite_steps)
  then show "normalizeAngle NInf = None"
    by (simp add: normalizeAngle_def normalize_up_NInf)
  have "normalize_down NaN = Some NaN"
    by (subst normalize_down.simps) (simp add: Math_PI_def infinite_steps)
  moreover have "normalize_up NaN = Some NaN"
    by (subst normalize_up.simps) (simp add: Math_PI_def infinite_steps)
  ultimately show "normalizeAngle NaN = Some NaN"
    by (simp add: normalizeAngle_def)
qed

text \<open>
  In exact arithmetic the loops end on every finite angle, with a value between
  \<open>-\<pi>\<close> and \<open>\<pi>\<close> that differs from the angle by a multiple of \<open>2\<pi>\<close>; on an
  infinite angle they do not end.
\<close>

theorem normalizeAngle_exact:
  "(\<exists>y k. normalizeAngle (Fin x) = Some (Fin y) \<and> - pi \<le> y \<and> y \<le> pi
        \<and> y = x + 2 * pi * real_of_int k)
   \<and> normalizeAngle PInf = None \<and> normalizeAngle NInf = None"
proof -
  obtain a :: nat where a: "normalize_down (Fin x) = Some (Fin (x - 2 * pi * real a))"
      "x - 2 * pi * real a \<le> pi" "pi < x \<longrightarrow> - pi < x - 2 * pi * real a"
      "x \<le> pi \<longrightarrow> a = 0"
    using normalize_down_finite [of x] by blast
  define z where "z = x - 2 * pi * real a"
  obtain b :: nat where b: "normalize_up (Fin z) = Some (Fin (z + 2 * pi * real b))"
      "- pi \<le> z + 2 * pi * real b" "z < - pi \<longrightarrow> z + 2 * pi * real b < pi"
      "- pi \<le> z \<longrightarrow> b = 0"
    using normalize_up_finite [of z] by blast
  define y where "y = z + 2 * pi * real b"
  have r: "normalizeAngle (Fin x) = Some (Fin y)"
    by (simp add: normalizeAngle_def a(1) z_def [symmetric] b(1) y_def)
  have up: "y \<le> pi"
  proof (cases "z < - pi")
    case True
    with b(3) show ?thesis by (simp add: y_def)
  next
    case False
    with b(4) a(2) show ?thesis by (simp add: y_def z_def)
  qed
  have "y = x + 2 * pi * real_of_int (int b - int a)"
    by (simp add: y_def z_def algebra_simps)
  with r up b(2) have "normalizeAngle (Fin x) = Some (Fin y) \<and> - pi \<le> y \<and> y \<le> pi
        \<and> y = x + 2 * pi * real_of_int (int b - int a)"
    by (simp add: y_def)
  then show ?thesis
    using normalizeAngle_infinite by blast
qed

subsection \<open>In binary64 arithmetic\<close>

lemma round_half_even_near:
  assumes "of_int m - 1 / 2 < z" "z < of_int m + 1 / 2"
  shows "round_half_even z = m"
proof (cases "of_int m \<le> z")
  case True
  then have "\<lfloor>z\<rfloor> = m" using assms(2) by linarith
  then show ?thesis using assms(2) by (simp add: round_half_even_def)
next
  case False
  then have f: "\<lfloor>z\<rfloor> = m - 1" using assms(1) by linarith
  have "1 / 2 < z - of_int (m - 1)" using assms(1) by simp
  then show ?thesis unfolding round_half_even_def Let_def f by simp
qed

lemma binary64_in_binade:
  assumes "2 powr of_int k \<le> x" "x < 2 powr of_int (k + 1)" "- 1022 \<le> k"
    and "round_half_even (x / 2 powr of_int (k - 52)) = m"
    and "\<bar>real_of_int m * 2 powr of_int (k - 52)\<bar> < 2 ^ 1024"
  shows "binary64 x = Fin (of_int m * 2 powr of_int (k - 52))"
proof -
  have pos: "0 < x" using assms(1) by (smt (verit) powr_gt_zero)
  have "\<lfloor>log 2 x\<rfloor> = k"
    by (rule floor_log_eq_powr_iff [THEN iffD2]) (use pos assms(1,2) in simp_all)
  then have e: "max (\<lfloor>log 2 \<bar>x\<bar>\<rfloor> - 52) (- 1074) = k - 52"
    using pos assms(3) by simp
  have "\<not> 2 ^ 1024 \<le> \<bar>real_of_int m * 2 powr of_int (k - 52)\<bar>"
    using assms(5) by linarith
  then show ?thesis
    using pos unfolding binary64_def Let_def e assms(4) by (simp only: if_False) simp
qed

lemma two_pi_double: "to_double (2 * Math_PI_double) = Fin (884279719003555 / 2 ^ 47)"
proof -
  let ?x = "884279719003555 / 2 ^ 47 :: real"
  have r: "round_half_even (?x / 2 powr of_int (2 - 52)) = 7074237752028440"
    by (rule round_half_even_near) (simp_all add: powr_neg_numeral)
  have "binary64 ?x = Fin (of_int 7074237752028440 * 2 powr of_int (2 - 52))"
    by (rule binary64_in_binade [OF _ _ _ r]) (simp_all add: powr_neg_numeral)
  then have "binary64 ?x = Fin ?x"
    by (simp add: powr_neg_numeral)
  moreover have "2 * Math_PI_double = Fin ?x"
    by (simp add: Math_PI_double_def)
  ultimately show ?thesis by simp
qed

lemma absorbed:
  "to_double (Fin (2 ^ 60) - to_double (2 * Math_PI_double)) = Fin (2 ^ 60)"
proof -
  let ?x = "2 ^ 60 - 884279719003555 / 2 ^ 47 :: real"
  have r: "round_half_even (?x / 2 powr of_int (59 - 52)) = 2 ^ 53"
    by (rule round_half_even_near) (simp_all add: powr_neg_numeral)
  have "binary64 ?x = Fin (of_int (2 ^ 53) * 2 powr of_int (59 - 52))"
    by (rule binary64_in_binade [OF _ _ _ r]) (simp_all add: powr_neg_numeral)
  then have "binary64 ?x = Fin (2 ^ 60)"
    by (simp add: powr_neg_numeral)
  then show ?thesis
    unfolding two_pi_double by simp
qed

lemma normalize_down_double_hangs: "normalize_down_double (Fin (2 ^ 60)) = None"
proof -
  have "a \<noteq> Fin (2 ^ 60)" if "normalize_down_double a = Some y" for a y
  proof (rule normalize_down_double.raw_induct [where P = "\<lambda>a y. a \<noteq> Fin (2 ^ 60)", OF _ that])
    fix f :: "number \<Rightarrow> number option" and a r
    assume ih: "\<And>x y. f x = Some y \<Longrightarrow> x \<noteq> Fin (2 ^ 60)"
      and eq: "(if Math_PI_double < a
                then f (to_double (a - to_double (2 * Math_PI_double))) else Some a) = Some r"
    show "a \<noteq> Fin (2 ^ 60)"
    proof
      assume a: "a = Fin (2 ^ 60)"
      have "Math_PI_double < Fin (2 ^ 60)"
        by (simp add: Math_PI_double_def)
      with eq have "f (Fin (2 ^ 60)) = Some r"
        unfolding a absorbed by simp
      with ih show False by blast
    qed
  qed
  then show ?thesis by (cases "normalize_down_double (Fin (2 ^ 60))") auto
qed

text \<open>
  C10: for every finite angle \<open>normalizeAngle\<close> returns, with a value between
  \<open>-\<pi>\<close> and \<open>\<pi>\<close>. In the machine's arithmetic it does not: \<open>2 ^ 60\<close> is a
  finite binary64 value above \<open>Math.PI\<close>, and \<open>2 ^ 60 - 2 * Math.PI\<close> rounds to
  \<open>2 ^ 60\<close> again (the binary64 values next to it are 128 apart), so the first loop
  never leaves it and the call does not return.
\<close>

theorem normalizeAngle_double_hangs: "normalizeAngle_double (Fin (2 ^ 60)) = None"
  unfolding normalizeAngle_double_def normalize_down_double_hangs by simp

end
